theory Spec2Isabelle
  imports Complex_Main "HOL-Library.Multiset"
begin

section \<open>Vectors, rays and bounds\<close>

text \<open>
  The renderer of \<^verbatim>\<open>RT_SYCL/main.cpp\<close> and the box of \<^verbatim>\<open>RT_SYCL/box.hpp\<close>. The headers
  they include (\<^verbatim>\<open>vec3.hpp\<close>, \<^verbatim>\<open>ray.hpp\<close>, \<^verbatim>\<open>hitable.hpp\<close>, \<^verbatim>\<open>rectangle.hpp\<close>,
  \<^verbatim>\<open>rtweekend.hpp\<close>, \<^verbatim>\<open>camera.hpp\<close>, \<^verbatim>\<open>texture.hpp\<close>) are not among the sources: what the
  two files use of them is a parameter of the model, or is modelled from the spec where a
  statement needs a concrete routine.

  The scalar type \<^verbatim>\<open>real_t\<close> is modelled by \<^typ>\<open>real\<close>: every statement below is about
  exact arithmetic, without rounding and without NaN.

  \<^verbatim>\<open>vec3\<close>, \<^verbatim>\<open>point\<close> and \<^verbatim>\<open>point3\<close> are one three-component vector type with accessors
  \<^verbatim>\<open>x()\<close>, \<^verbatim>\<open>y()\<close>, \<^verbatim>\<open>z()\<close> (here \<open>vx\<close>, \<open>vy\<close>, \<open>vz\<close>: a one-letter constant
  would capture the variables of every later statement).
\<close>

datatype vec3 = Vec3 (vx: real) (vy: real) (vz: real)

type_synonym point = vec3

text \<open>
  The arithmetic operators of \<^verbatim>\<open>vec3\<close> act componentwise.
\<close>

instantiation vec3 :: "{plus, minus, times}"
begin
fun plus_vec3 :: "vec3 \<Rightarrow> vec3 \<Rightarrow> vec3" where
  "plus_vec3 (Vec3 a b c) (Vec3 d e f) = Vec3 (a + d) (b + e) (c + f)"
fun minus_vec3 :: "vec3 \<Rightarrow> vec3 \<Rightarrow> vec3" where
  "minus_vec3 (Vec3 a b c) (Vec3 d e f) = Vec3 (a - d) (b - e) (c - f)"
fun times_vec3 :: "vec3 \<Rightarrow> vec3 \<Rightarrow> vec3" where
  "times_vec3 (Vec3 a b c) (Vec3 d e f) = Vec3 (a * d) (b * e) (c * f)"
instance ..
end

text \<open>
  \<^verbatim>\<open>s * v\<close> and \<^verbatim>\<open>v / s\<close> for a scalar \<open>s\<close>, the dot product, \<^verbatim>\<open>sycl::cross\<close> and
  \<^verbatim>\<open>sycl::length\<close>.
\<close>

fun scale :: "real \<Rightarrow> vec3 \<Rightarrow> vec3" where
  "scale s (Vec3 a b c) = Vec3 (s * a) (s * b) (s * c)"

fun divide_by :: "vec3 \<Rightarrow> real \<Rightarrow> vec3" where
  "divide_by (Vec3 a b c) s = Vec3 (a / s) (b / s) (c / s)"

fun dot :: "vec3 \<Rightarrow> vec3 \<Rightarrow> real" where
  "dot (Vec3 a b c) (Vec3 d e f) = a * d + b * e + c * f"

fun cross :: "vec3 \<Rightarrow> vec3 \<Rightarrow> vec3" where
  "cross (Vec3 a b c) (Vec3 d e f) = Vec3 (b * f - c * e) (c * d - a * f) (a * e - b * d)"

definition length_vec :: "vec3 \<Rightarrow> real" where
  "length_vec v = sqrt (dot v v)"

text \<open>
  Modelled from the spec: \<^verbatim>\<open>unit_vector\<close> (\<^verbatim>\<open>vec3.hpp\<close>) is the "normalization" of the
  vector operations, the vector divided by its length.
\<close>

definition unit_vector :: "vec3 \<Rightarrow> vec3" where
  "unit_vector v = divide_by v (length_vec v)"

text \<open>
  Modelled from the spec: a ray (\<^verbatim>\<open>ray.hpp\<close>) is an "origin point + direction vector;
  parametrized as origin + t*direction".
\<close>

record ray =
  origin :: point
  direction :: vec3

definition ray_at :: "ray \<Rightarrow> real \<Rightarrow> point" where
  "ray_at r s = origin r + scale s (direction r)"

text \<open>
  Modelled from the spec: the upper bound of a scan interval is a number or "+infinity"
  (the constant \<^verbatim>\<open>infinity\<close> of \<^verbatim>\<open>rtweekend.hpp\<close>), which is above every number.
\<close>

datatype bound = Finite real | Infinity

instantiation bound :: linorder
begin
fun less_eq_bound :: "bound \<Rightarrow> bound \<Rightarrow> bool" where
  "less_eq_bound (Finite a) (Finite b) = (a \<le> b)"
| "less_eq_bound (Finite a) Infinity = True"
| "less_eq_bound Infinity (Finite b) = False"
| "less_eq_bound Infinity Infinity = True"
fun less_bound :: "bound \<Rightarrow> bound \<Rightarrow> bool" where
  "less_bound (Finite a) (Finite b) = (a < b)"
| "less_bound (Finite a) Infinity = True"
| "less_bound Infinity (Finite b) = False"
| "less_bound Infinity Infinity = False"
instance
proof
  fix x y z :: bound
  show "(x < y) = (x \<le> y \<and> \<not> y \<le> x)" by (cases x; cases y) auto
  show "x \<le> x" by (cases x) auto
  show "x \<le> y \<Longrightarrow> y \<le> z \<Longrightarrow> x \<le> z" by (cases x; cases y; cases z) auto
  show "x \<le> y \<Longrightarrow> y \<le> x \<Longrightarrow> x = y" by (cases x; cases y) auto
  show "x \<le> y \<or> y \<le> x" by (cases x; cases y) auto
qed
end

text \<open>
  The material kinds that \<^verbatim>\<open>main.cpp\<close> names.
\<close>

datatype material_t = Lambertian | Metal

text \<open>
  Modelled from the spec: \<^verbatim>\<open>hit_record\<close> (\<^verbatim>\<open>hitable.hpp\<close>) holds the "point of
  intersection, surface normal, parametric distance t, material reference". The sources
  read its field \<^verbatim>\<open>t\<close> (here \<open>hit_t\<close>).
\<close>

record hit_record =
  hit_p :: point
  hit_normal :: vec3
  hit_t :: real
  hit_material :: material_t

section \<open>\<^verbatim>\<open>main.cpp\<close>: the nearest-hit scan, \<^verbatim>\<open>render_kernel::hit_world\<close>\<close>

text \<open>
  \<^verbatim>\<open>sphere::hit(r, min, max, rec)\<close> (\<^verbatim>\<open>hitable.hpp\<close>) is a parameter \<open>hit\<close> of the
  scan: it gets the primitive, the ray, the two bounds and the record it may write to
  (passed by reference), and returns its flag with the record as it leaves it.

  The array \<^verbatim>\<open>spheres\<close> with its length \<^verbatim>\<open>num_spheres\<close> is the list \<open>spheres\<close>. The
  variables of the loop are \<open>temp_rec\<close>, \<open>hit_anything\<close>, \<open>closest_so_far\<close> and the
  caller's \<open>rec\<close>. The bounds \<^verbatim>\<open>min\<close> and \<^verbatim>\<open>max\<close> are \<open>tmin\<close> and \<open>tmax\<close>.
\<close>

type_synonym 's hit_fn = "'s \<Rightarrow> ray \<Rightarrow> real \<Rightarrow> bound \<Rightarrow> hit_record \<Rightarrow> bool \<times> hit_record"

fun hit_world_loop ::
  "'s hit_fn \<Rightarrow> ray \<Rightarrow> real \<Rightarrow> 's list \<Rightarrow> hit_record \<Rightarrow> bool \<Rightarrow> bound \<Rightarrow> hit_record
    \<Rightarrow> hit_record \<times> bool \<times> bound \<times> hit_record" where
  "hit_world_loop hit r tmin [] temp_rec hit_anything closest_so_far rec =
     (temp_rec, hit_anything, closest_so_far, rec)"
| "hit_world_loop hit r tmin (s # ss) temp_rec hit_anything closest_so_far rec =
     (let (ok, temp_rec') = hit s r tmin closest_so_far temp_rec in
      if ok then hit_world_loop hit r tmin ss temp_rec' True (Finite (hit_t temp_rec')) temp_rec'
      else hit_world_loop hit r tmin ss temp_rec' hit_anything closest_so_far rec)"

text \<open>
  \<open>temp0\<close> is the content of the default-constructed \<^verbatim>\<open>temp_rec\<close>. The result is the
  returned flag and the caller's record after the call.
\<close>

definition hit_world ::
  "'s hit_fn \<Rightarrow> hit_record \<Rightarrow> ray \<Rightarrow> real \<Rightarrow> bound \<Rightarrow> hit_record \<Rightarrow> 's list
    \<Rightarrow> bool \<times> hit_record" where
  "hit_world hit temp0 r tmin tmax rec spheres =
     (let (temp_rec, hit_anything, closest_so_far, rec') =
            hit_world_loop hit r tmin spheres temp0 False tmax rec
      in (hit_anything, rec'))"

section \<open>\<^verbatim>\<open>main.cpp\<close>: the path integrator, \<^verbatim>\<open>render_kernel::color\<close>\<close>

text \<open>
  What the kernel uses of the headers that are not among the sources, as parameters:
  \<^item> \<open>sphere_hit\<close>: \<^verbatim>\<open>sphere::hit\<close>, the hit routine of the scan;
  \<^item> \<open>default_hit_record\<close>, \<open>default_ray\<close>: the contents of a default-constructed
    \<^verbatim>\<open>hit_record\<close> and \<^verbatim>\<open>ray\<close>;
  \<^item> \<open>scatter_material\<close>: \<^verbatim>\<open>hit_record::scatter_material(r_in, attenuation, scattered)\<close>,
    which gets the attenuation and the scattered ray by reference and may draw random
    numbers; it returns its flag, the two as it leaves them, and the generator;
  \<^item> \<open>random_double\<close>, \<open>random_in_unit_disk\<close>: the random draws, each taking the
    state \<open>'g\<close> of the generator and returning the next one.
\<close>

record ('s, 'g) externals =
  sphere_hit :: "'s hit_fn"
  default_hit_record :: hit_record
  default_ray :: ray
  scatter_material :: "hit_record \<Rightarrow> ray \<Rightarrow> vec3 \<Rightarrow> ray \<Rightarrow> 'g \<Rightarrow> (bool \<times> vec3 \<times> ray) \<times> 'g"
  random_double :: "'g \<Rightarrow> real \<times> 'g"
  random_in_unit_disk :: "'g \<Rightarrow> vec3 \<times> 'g"

text \<open>
  The variables of the loop of \<^verbatim>\<open>color\<close>: \<open>cur_ray\<close>, \<open>cur_attenuation\<close>,
  \<open>scattered\<close> and the generator. One run of the loop body either returns a colour
  (\<open>Inl\<close>) or goes on with new variables (\<open>Inr\<close>).
\<close>

type_synonym 'g color_state = "ray \<times> vec3 \<times> ray \<times> 'g"

definition color_body ::
  "('s, 'g) externals \<Rightarrow> 's list \<Rightarrow> 'g color_state \<Rightarrow> (vec3 \<times> 'g) + 'g color_state" where
  "color_body E spheres st =
     (let (cur_ray, cur_attenuation, scattered, g) = st;
          (found, rec) = hit_world (sphere_hit E) (default_hit_record E) cur_ray 0.001 Infinity
                           (default_hit_record E) spheres
      in if found then
           (let ((ok, cur_attenuation', scattered'), g') =
                  scatter_material E rec cur_ray cur_attenuation scattered g
            in if ok then Inr (scattered', cur_attenuation', scattered', g')
               else Inl (Vec3 0.0 0.0 0.0, g'))
         else
           (let unit_direction = unit_vector (direction cur_ray);
                hit_pt = 0.5 * (vy unit_direction + 1.0);
                c = scale (1.0 - hit_pt) (Vec3 1.0 1.0 1.0) + scale hit_pt (Vec3 0.5 0.7 1.0)
            in Inl (cur_attenuation * c, g)))"

text \<open>The loop, with \<open>n\<close> iterations left; it returns black when none is left.\<close>

fun color_loop ::
  "('s, 'g) externals \<Rightarrow> 's list \<Rightarrow> nat \<Rightarrow> 'g color_state \<Rightarrow> vec3 \<times> 'g" where
  "color_loop E spheres 0 st = (Vec3 0.0 0.0 0.0, snd (snd (snd st)))"
| "color_loop E spheres (Suc n) st =
     (case color_body E spheres st of
        Inl result \<Rightarrow> result
      | Inr st' \<Rightarrow> color_loop E spheres n st')"

definition color :: "('s, 'g) externals \<Rightarrow> ray \<Rightarrow> 's list \<Rightarrow> int \<Rightarrow> 'g \<Rightarrow> vec3 \<times> 'g" where
  "color E r spheres max_depth g =
     color_loop E spheres (nat max_depth) (r, Vec3 1.0 1.0 1.0, default_ray E, g)"

text \<open>
  An observation of the same loop: the variables after \<open>k\<close> runs of the body that all
  went on (\<open>None\<close> when one of them returned).
\<close>

fun color_run ::
  "('s, 'g) externals \<Rightarrow> 's list \<Rightarrow> nat \<Rightarrow> 'g color_state \<Rightarrow> 'g color_state option" where
  "color_run E spheres 0 st = Some st"
| "color_run E spheres (Suc k) st =
     (case color_body E spheres st of
        Inl result \<Rightarrow> None
      | Inr st' \<Rightarrow> color_run E spheres k st')"

section \<open>\<^verbatim>\<open>main.cpp\<close>: the pixel task, \<^verbatim>\<open>render_kernel::get_ray\<close> and \<^verbatim>\<open>render_kernel::operator()\<close>\<close>

text \<open>
  Modelled from the spec: \<^verbatim>\<open>degrees_to_radians\<close> (\<^verbatim>\<open>rtweekend.hpp\<close>) turns the "vertical
  field of view", given in degrees, into radians.
\<close>

definition degrees_to_radians :: "real \<Rightarrow> real" where
  "degrees_to_radians degrees = degrees * pi / 180"

text \<open>
  \<^verbatim>\<open>get_ray(s, t)\<close>. The members \<^verbatim>\<open>origin\<close>, \<^verbatim>\<open>horizontal\<close>, \<^verbatim>\<open>vertical\<close> and
  \<^verbatim>\<open>lower_left_corner\<close> of the kernel are assigned before they are read, at every call,
  so they are local here (\<open>cam_origin\<close> for \<^verbatim>\<open>origin\<close>). The one random draw is
  \<^verbatim>\<open>random_in_unit_disk\<close>.
\<close>

definition get_ray :: "('s, 'g) externals \<Rightarrow> real \<Rightarrow> real \<Rightarrow> 'g \<Rightarrow> ray \<times> 'g" where
  "get_ray E s t g =
     (let theta = degrees_to_radians 20;
          h = tan (theta / 2);
          aspect_ratio = 16.0 / 9.0;
          viewport_height = 2.0 * h;
          viewport_width = aspect_ratio * viewport_height;
          look_from = Vec3 13 2 3;
          focus_dist = 10;
          w = unit_vector (look_from - Vec3 0 0 0);
          u = unit_vector (cross (Vec3 0 1 0) w);
          v = cross w u;
          cam_origin = look_from;
          horizontal = scale (focus_dist * viewport_width) u;
          vertical = scale (focus_dist * viewport_height) v;
          lower_left_corner =
            cam_origin - divide_by horizontal 2 - divide_by vertical 2 - scale focus_dist w;
          lens_radius = 0.1 / 2;
          (disk, g') = random_in_unit_disk E g;
          rd = scale lens_radius disk;
          offset = scale (vx rd) u + scale (vy rd) v
      in (\<lparr> origin = cam_origin + offset,
            direction = lower_left_corner + scale s horizontal + scale t vertical
                          - cam_origin - offset \<rparr>, g'))"

text \<open>
  The sampling loop of \<^verbatim>\<open>operator()\<close>, with \<open>n\<close> samples left: the two draws of
  \<^verbatim>\<open>random_double\<close> in the order of the two statements, the camera ray, its colour added
  to \<open>final_color\<close>. The template constants \<^verbatim>\<open>width\<close>, \<^verbatim>\<open>height\<close>, \<^verbatim>\<open>samples\<close>
  and \<^verbatim>\<open>depth\<close> are natural numbers.
\<close>

fun sample_loop ::
  "('s, 'g) externals \<Rightarrow> nat \<Rightarrow> nat \<Rightarrow> nat \<Rightarrow> 's list \<Rightarrow> nat \<Rightarrow> nat \<Rightarrow> nat \<Rightarrow> vec3 \<Rightarrow> 'g
    \<Rightarrow> vec3 \<times> 'g" where
  "sample_loop E width height depth spheres x_coord y_coord 0 final_color g = (final_color, g)"
| "sample_loop E width height depth spheres x_coord y_coord (Suc n) final_color g =
     (let (d1, g1) = random_double E g;
          u = (real x_coord + d1) / real width;
          (d2, g2) = random_double E g1;
          v = (real y_coord + d2) / real height;
          (r, g3) = get_ray E u v g2;
          (c, g4) = color E r spheres (int depth) g3
      in sample_loop E width height depth spheres x_coord y_coord n (final_color + c) g4)"

text \<open>
  \<^verbatim>\<open>operator()\<close> for the work item \<open>(x_coord, y_coord)\<close>: the frame buffer behind
  \<^verbatim>\<open>m_frame_ptr\<close> is a list, and the result is the buffer after the write, with the
  generator. The code divides by \<^verbatim>\<open>samples\<close>: the statements below take it above zero.
\<close>

definition render_pixel ::
  "('s, 'g) externals \<Rightarrow> nat \<Rightarrow> nat \<Rightarrow> nat \<Rightarrow> nat \<Rightarrow> 's list \<Rightarrow> nat \<Rightarrow> nat \<Rightarrow> vec3 list \<Rightarrow> 'g
    \<Rightarrow> vec3 list \<times> 'g" where
  "render_pixel E width height samples depth spheres x_coord y_coord frame g =
     (let pixel_index = y_coord * width + x_coord;
          (final_color, g') =
            sample_loop E width height depth spheres x_coord y_coord samples (Vec3 0.0 0.0 0.0) g;
          final_color' = divide_by final_color (real samples)
      in (frame[pixel_index := final_color'], g'))"

section \<open>\<^verbatim>\<open>main.cpp\<close>: the image encoder, \<^verbatim>\<open>save_image\<close>\<close>

text \<open>\<^verbatim>\<open>std::clamp(v, lo, hi)\<close>: \<open>lo\<close> when \<open>v\<close> is below it, \<open>hi\<close> when \<open>v\<close> is above it.\<close>

definition clamp :: "real \<Rightarrow> real \<Rightarrow> real \<Rightarrow> real" where
  "clamp v lo hi = (if v < lo then lo else if hi < v then hi else v)"

text \<open>\<^verbatim>\<open>static_cast<int>\<close> of a scalar drops the fraction, towards zero.\<close>

definition static_cast_int :: "real \<Rightarrow> int" where
  "static_cast_int v = (if 0 \<le> v then \<lfloor>v\<rfloor> else \<lceil>v\<rceil>)"

text \<open>
  What the function writes to \<^verbatim>\<open>std::cout\<close>, read as a plain PPM image: the magic
  number, the size, the maximum value, and one triple of integers for each line of three
  numbers, in the order written.
\<close>

record ppm_image =
  ppm_magic :: string
  ppm_width :: nat
  ppm_height :: nat
  ppm_max :: nat
  ppm_pixels :: "(int \<times> int \<times> int) list"

text \<open>
  \<^verbatim>\<open>sycl::sqrt\<close> is the parameter \<open>sycl_sqrt\<close>: the square root of the library on the
  numbers of \<^verbatim>\<open>real_t\<close>, rounded as the library rounds it, so that it need not be the exact
  root. Of a negative number it is NaN, which is no number: \<open>None\<close>. A NaN passes
  \<^verbatim>\<open>std::clamp\<close> and the product, and its conversion to \<^verbatim>\<open>int\<close> has no defined value; the
  pixel, and with it the image, has none then (\<open>None\<close>).

  The product with 256, a power of two, is exact in binary floating point. \<open>0.999\<close>
  stands for the number of \<^verbatim>\<open>real_t\<close> nearest to it; every bound from \<open>255 / 256\<close> up to
  \<open>1\<close>, excluded, gives the same integers (\<open>clamp_bound\<close> below).

  The body of the inner loop, for the pixel \<open>(x, y)\<close>:
\<close>

definition save_pixel ::
  "(real \<Rightarrow> real option) \<Rightarrow> nat \<Rightarrow> vec3 list \<Rightarrow> nat \<Rightarrow> nat \<Rightarrow> (int \<times> int \<times> int) option" where
  "save_pixel sycl_sqrt width fb_data y x =
     (let pixel_index = y * width + x in
      case sycl_sqrt (vx (fb_data ! pixel_index)) of
        None \<Rightarrow> None
      | Some root_x \<Rightarrow>
      (case sycl_sqrt (vy (fb_data ! pixel_index)) of
        None \<Rightarrow> None
      | Some root_y \<Rightarrow>
      (case sycl_sqrt (vz (fb_data ! pixel_index)) of
        None \<Rightarrow> None
      | Some root_z \<Rightarrow>
          (let r = static_cast_int (256 * clamp root_x 0.0 0.999);
               g = static_cast_int (256 * clamp root_y 0.0 0.999);
               b = static_cast_int (256 * clamp root_z 0.0 0.999)
           in Some (r, g, b)))))"

text \<open>
  The outer loop runs \<open>y\<close> from \<open>height - 1\<close> down to \<open>0\<close>: \<open>save_rows\<close> with
  \<open>n\<close> rows left writes row \<open>n - 1\<close> and then the rows below it. The inner loop runs
  \<open>x\<close> upwards over the row.
\<close>

fun save_rows ::
  "(real \<Rightarrow> real option) \<Rightarrow> nat \<Rightarrow> vec3 list \<Rightarrow> nat \<Rightarrow> (int \<times> int \<times> int) list option" where
  "save_rows sycl_sqrt width fb_data 0 = Some []"
| "save_rows sycl_sqrt width fb_data (Suc y) =
     (case those (map (save_pixel sycl_sqrt width fb_data y) [0..<width]) of
        None \<Rightarrow> None
      | Some row \<Rightarrow>
          (case save_rows sycl_sqrt width fb_data y of
             None \<Rightarrow> None
           | Some rows \<Rightarrow> Some (row @ rows)))"

definition save_image ::
  "(real \<Rightarrow> real option) \<Rightarrow> nat \<Rightarrow> nat \<Rightarrow> vec3 list \<Rightarrow> ppm_image option" where
  "save_image sycl_sqrt width height fb_data =
     (case save_rows sycl_sqrt width fb_data height of
        None \<Rightarrow> None
      | Some pixels \<Rightarrow>
          Some \<lparr> ppm_magic = ''P3'', ppm_width = width, ppm_height = height, ppm_max = 255,
                 ppm_pixels = pixels \<rparr>)"

section \<open>\<^verbatim>\<open>box.hpp\<close>\<close>

text \<open>
  \<^verbatim>\<open>rectangle_t\<close> is a variant over the three rectangle classes of \<^verbatim>\<open>rectangle.hpp\<close>. A
  constructor takes, as the box constructor calls it, the two bounds on the first in-plane
  axis, the two bounds on the second, the fixed third coordinate and the material.
\<close>

datatype rectangle_t =
    xy_rect real real real real real material_t
  | xz_rect real real real real real material_t
  | yz_rect real real real real real material_t

record box =
  box_min :: point
  box_max :: point
  material_type :: material_t
  sides :: "rectangle_t list"

text \<open>
  The constructor \<^verbatim>\<open>box::box(p0, p1, mat_type)\<close>.
\<close>

definition box :: "point \<Rightarrow> point \<Rightarrow> material_t \<Rightarrow> box" where
  "box p0 p1 mat_type =
     \<lparr> box_min = p0, box_max = p1, material_type = mat_type,
       sides =
         [ xy_rect (vx p0) (vx p1) (vy p0) (vy p1) (vz p1) mat_type,
           xy_rect (vx p0) (vx p1) (vy p0) (vy p1) (vz p0) mat_type,
           xz_rect (vx p0) (vx p1) (vz p0) (vz p1) (vy p1) mat_type,
           xz_rect (vx p0) (vx p1) (vz p0) (vz p1) (vy p0) mat_type,
           yz_rect (vy p0) (vy p1) (vz p0) (vz p1) (vx p1) mat_type,
           yz_rect (vy p0) (vy p1) (vz p0) (vz p1) (vx p0) mat_type ] \<rparr>"

text \<open>
  The \<^verbatim>\<open>hit\<close> of a rectangle (reached through \<^verbatim>\<open>std::visit\<close>) is the parameter
  \<open>side_hit\<close>: it may write to the record and to the material it is handed.
\<close>

type_synonym side_hit_fn =
  "rectangle_t \<Rightarrow> ray \<Rightarrow> real \<Rightarrow> bound \<Rightarrow> hit_record \<Rightarrow> material_t
    \<Rightarrow> bool \<times> hit_record \<times> material_t"

fun box_hit_loop ::
  "side_hit_fn \<Rightarrow> ray \<Rightarrow> real \<Rightarrow> rectangle_t list \<Rightarrow> hit_record \<Rightarrow> material_t \<Rightarrow> bool \<Rightarrow> bound
    \<Rightarrow> hit_record \<Rightarrow> material_t
    \<Rightarrow> hit_record \<times> material_t \<times> bool \<times> bound \<times> hit_record \<times> material_t" where
  "box_hit_loop side_hit r tmin [] temp_rec temp_material_type hit_anything closest_so_far
       rec hit_material_type =
     (temp_rec, temp_material_type, hit_anything, closest_so_far, rec, hit_material_type)"
| "box_hit_loop side_hit r tmin (side # rest) temp_rec temp_material_type hit_anything
       closest_so_far rec hit_material_type =
     (let (ok, temp_rec', temp_material_type') =
            side_hit side r tmin closest_so_far temp_rec temp_material_type in
      if ok then
        box_hit_loop side_hit r tmin rest temp_rec' temp_material_type' True
          (Finite (hit_t temp_rec')) temp_rec' temp_material_type'
      else
        box_hit_loop side_hit r tmin rest temp_rec' temp_material_type' hit_anything
          closest_so_far rec hit_material_type)"

text \<open>
  \<open>temp0\<close> and \<open>mat0\<close> are the contents of the default-constructed \<^verbatim>\<open>temp_rec\<close> and
  \<^verbatim>\<open>temp_material_type\<close>. The result is the flag, the caller's record and the caller's
  material after the call.
\<close>

definition box_hit ::
  "side_hit_fn \<Rightarrow> hit_record \<Rightarrow> material_t \<Rightarrow> box \<Rightarrow> ray \<Rightarrow> real \<Rightarrow> bound \<Rightarrow> hit_record
    \<Rightarrow> material_t \<Rightarrow> bool \<times> hit_record \<times> material_t" where
  "box_hit side_hit temp0 mat0 b r tmin tmax rec hit_material_type =
     (let (temp_rec, temp_material_type, hit_anything, closest_so_far, rec', hit_material_type') =
            box_hit_loop side_hit r tmin (sides b) temp0 mat0 False tmax rec hit_material_type
      in (hit_anything, rec', hit_material_type'))"

section \<open>The routines of the other headers, as the spec describes them\<close>

text \<open>
  Modelled from the spec: a sphere is a "geometric shape + associated material reference",
  "of given center and radius".
\<close>

record sphere =
  center :: point
  radius :: real
  sphere_material :: material_t

text \<open>
  Modelled from the spec: the record of a hit of the sphere at the parameter \<open>t_root\<close>:
  the point on the ray, the "surface normal (unit length, oriented against incoming ray)",
  the distance and the sphere's material.
\<close>

definition sphere_record :: "sphere \<Rightarrow> ray \<Rightarrow> real \<Rightarrow> hit_record" where
  "sphere_record s r t_root =
     (let p = ray_at r t_root;
          outward_normal = divide_by (p - center s) (radius s)
      in \<lparr> hit_p = p,
           hit_normal = (if dot (direction r) outward_normal < 0 then outward_normal
                         else scale (- 1) outward_normal),
           hit_t = t_root,
           hit_material = sphere_material s \<rparr>)"

text \<open>
  Modelled from the spec: \<^verbatim>\<open>sphere::hit\<close> (\<^verbatim>\<open>hitable.hpp\<close>) "solves the quadratic for
  intersection of the ray with a sphere of given center and radius; among up to two real
  roots, returns the smallest root lying in (tMin, tMax); fails (no hit) if the
  discriminant is negative or both roots fall outside the interval". A miss leaves the
  record as it was.
\<close>

definition sphere_hit_spec :: "sphere hit_fn" where
  "sphere_hit_spec s r tmin tmax rec =
     (let oc = origin r - center s;
          a = dot (direction r) (direction r);
          half_b = dot oc (direction r);
          c = dot oc oc - radius s * radius s;
          discriminant = half_b * half_b - a * c
      in if discriminant < 0 then (False, rec)
         else
           let root1 = (- half_b - sqrt discriminant) / a;
               root2 = (- half_b + sqrt discriminant) / a
           in if tmin < root1 \<and> Finite root1 < tmax then (True, sphere_record s r root1)
              else if tmin < root2 \<and> Finite root2 < tmax then (True, sphere_record s r root2)
              else (False, rec))"

text \<open>
  Modelled from the spec: the \<^verbatim>\<open>hit\<close> of an axis-aligned rectangle (\<^verbatim>\<open>rectangle.hpp\<close>)
  "intersects the ray with the plane of fixed third coordinate, rejects if the ray is
  parallel to that plane (zero or near-zero denominator) or if the computed t is outside
  (tMin, tMax), and rejects if the in-plane coordinates fall outside the rectangle's two
  bounds. Produces a HitRecord with normal equal to the plane's fixed axis". The hit also
  hands out the rectangle's material. A miss leaves the record and the material as they
  were.
\<close>

fun rect_hit_spec :: side_hit_fn where
  "rect_hit_spec (xy_rect x0 x1 y0 y1 k mat) r tmin tmax rec hit_material_type =
     (if vz (direction r) = 0 then (False, rec, hit_material_type)
      else
        let t = (k - vz (origin r)) / vz (direction r) in
        if t \<le> tmin \<or> tmax \<le> Finite t then (False, rec, hit_material_type)
        else
          let x = vx (origin r) + t * vx (direction r);
              y = vy (origin r) + t * vy (direction r)
          in if x < x0 \<or> x1 < x \<or> y < y0 \<or> y1 < y then (False, rec, hit_material_type)
             else (True, \<lparr> hit_p = ray_at r t, hit_normal = Vec3 0 0 1, hit_t = t,
                           hit_material = mat \<rparr>, mat))"
| "rect_hit_spec (xz_rect x0 x1 z0 z1 k mat) r tmin tmax rec hit_material_type =
     (if vy (direction r) = 0 then (False, rec, hit_material_type)
      else
        let t = (k - vy (origin r)) / vy (direction r) in
        if t \<le> tmin \<or> tmax \<le> Finite t then (False, rec, hit_material_type)
        else
          let x = vx (origin r) + t * vx (direction r);
              z = vz (origin r) + t * vz (direction r)
          in if x < x0 \<or> x1 < x \<or> z < z0 \<or> z1 < z then (False, rec, hit_material_type)
             else (True, \<lparr> hit_p = ray_at r t, hit_normal = Vec3 0 1 0, hit_t = t,
                           hit_material = mat \<rparr>, mat))"
| "rect_hit_spec (yz_rect y0 y1 z0 z1 k mat) r tmin tmax rec hit_material_type =
     (if vx (direction r) = 0 then (False, rec, hit_material_type)
      else
        let t = (k - vx (origin r)) / vx (direction r) in
        if t \<le> tmin \<or> tmax \<le> Finite t then (False, rec, hit_material_type)
        else
          let y = vy (origin r) + t * vy (direction r);
              z = vz (origin r) + t * vz (direction r)
          in if y < y0 \<or> y1 < y \<or> z < z0 \<or> z1 < z then (False, rec, hit_material_type)
             else (True, \<lparr> hit_p = ray_at r t, hit_normal = Vec3 1 0 0, hit_t = t,
                           hit_material = mat \<rparr>, mat))"


text \<open>
  Modelled from the spec: the Metal rule with fuzz 0: "scattered direction =
  reflect(incoming direction, normal)", "attenuation = albedo", "rejected (treated as
  absorbed) if the resulting scattered direction points into the surface (dot product with
  normal \<le> 0)".
\<close>

definition reflect :: "vec3 \<Rightarrow> vec3 \<Rightarrow> vec3" where
  "reflect v n = v - scale (2 * dot v n) n"

definition mirror_scatter ::
  "vec3 \<Rightarrow> hit_record \<Rightarrow> ray \<Rightarrow> 'g \<Rightarrow> (vec3 \<times> ray) option \<times> 'g" where
  "mirror_scatter albedo rec r_in g =
     (let reflected = reflect (direction r_in) (hit_normal rec) in
      if 0 < dot reflected (hit_normal rec)
      then (Some (albedo, \<lparr> origin = hit_p rec, direction = reflected \<rparr>), g)
      else (None, g))"

section \<open>The notions of the statements\<close>

text \<open>
  A hit routine answers interval queries consistently on a set of primitives, for a ray, a
  lower bound and an upper bound \<open>tmax\<close>, when for every tighter upper bound \<open>c\<close>:
  a hit reported below \<open>c\<close> is the hit reported on the whole interval, whatever the
  record handed in held, and lies at or below \<open>c\<close>; and a hit on the whole interval that
  lies below \<open>c\<close> is still reported under the bound \<open>c\<close>.
\<close>

definition interval_consistent :: "'s hit_fn \<Rightarrow> ray \<Rightarrow> real \<Rightarrow> bound \<Rightarrow> 's set \<Rightarrow> bool" where
  "interval_consistent hit r tmin tmax S \<longleftrightarrow>
     (\<forall>s\<in>S. \<forall>c tmp tmp'. c \<le> tmax \<longrightarrow>
        (fst (hit s r tmin c tmp) \<longrightarrow>
           hit s r tmin tmax tmp' = hit s r tmin c tmp \<and>
           Finite (hit_t (snd (hit s r tmin c tmp))) \<le> c) \<and>
        (fst (hit s r tmin tmax tmp) \<and> Finite (hit_t (snd (hit s r tmin tmax tmp))) < c \<longrightarrow>
           fst (hit s r tmin c tmp')))"

definition side_interval_consistent ::
  "side_hit_fn \<Rightarrow> ray \<Rightarrow> real \<Rightarrow> bound \<Rightarrow> rectangle_t set \<Rightarrow> bool" where
  "side_interval_consistent side_hit r tmin tmax S \<longleftrightarrow>
     (\<forall>s\<in>S. \<forall>c tmp m tmp' m'. c \<le> tmax \<longrightarrow>
        (fst (side_hit s r tmin c tmp m) \<longrightarrow>
           side_hit s r tmin tmax tmp' m' = side_hit s r tmin c tmp m \<and>
           Finite (hit_t (fst (snd (side_hit s r tmin c tmp m)))) \<le> c) \<and>
        (fst (side_hit s r tmin tmax tmp m) \<and>
         Finite (hit_t (fst (snd (side_hit s r tmin tmax tmp m)))) < c \<longrightarrow>
           fst (side_hit s r tmin c tmp' m')))"

text \<open>
  The scan of one iteration: the nearest hit over \<open>(0.001, +infinity)\<close>, or none.
\<close>

definition nearest_hit :: "('s, 'g) externals \<Rightarrow> 's list \<Rightarrow> ray \<Rightarrow> hit_record option" where
  "nearest_hit E spheres r =
     (let (found, rec) = hit_world (sphere_hit E) (default_hit_record E) r (1 / 1000) Infinity
                           (default_hit_record E) spheres
      in if found then Some rec else None)"

text \<open>
  The background: "a linear interpolation in the ray's normalized y-direction component
  d, equal to (1-h)*(1,1,1) + h*(0.5,0.7,1.0) with h = 0.5*(d+1)".
\<close>

definition background :: "ray \<Rightarrow> vec3" where
  "background r =
     (let d = vy (unit_vector (direction r)); h = (1 / 2) * (d + 1)
      in scale (1 - h) (Vec3 1 1 1) + scale h (Vec3 (1 / 2) (7 / 10) 1))"



text \<open>
  \<open>sm\<close>, in the place of \<^verbatim>\<open>scatter_material\<close>, applies the material rule \<open>scatter\<close>
  in place: on a scatter it returns true, with the attenuation it was handed multiplied by
  the rule's attenuation and with the rule's ray as the scattered ray; on absorption it
  returns false. Both leave the generator as the rule does.
\<close>

definition scatters_in_place ::
  "(hit_record \<Rightarrow> ray \<Rightarrow> vec3 \<Rightarrow> ray \<Rightarrow> 'g \<Rightarrow> (bool \<times> vec3 \<times> ray) \<times> 'g)
    \<Rightarrow> (hit_record \<Rightarrow> ray \<Rightarrow> 'g \<Rightarrow> (vec3 \<times> ray) option \<times> 'g) \<Rightarrow> bool" where
  "scatters_in_place sm scatter \<longleftrightarrow>
     (\<forall>rec r_in attenuation scattered g.
        case scatter rec r_in g of
          (Some (a, r_out), g') \<Rightarrow>
            sm rec r_in attenuation scattered g = ((True, attenuation * a, r_out), g')
        | (None, g') \<Rightarrow>
            \<not> fst (fst (sm rec r_in attenuation scattered g)) \<and>
            snd (sm rec r_in attenuation scattered g) = g')"

text \<open>
  The samples of a pixel, in order: for each, the two jitter offsets drawn, the viewport
  coordinates \<open>u = (x + jitter) / width\<close> and \<open>v = (y + jitter) / height\<close>, and the
  integrated colour of the camera ray through them.
\<close>

record pixel_sample =
  jitter_x :: real
  jitter_y :: real
  sample_u :: real
  sample_v :: real
  sample_color :: vec3

fun pixel_samples ::
  "('s, 'g) externals \<Rightarrow> nat \<Rightarrow> nat \<Rightarrow> nat \<Rightarrow> 's list \<Rightarrow> nat \<Rightarrow> nat \<Rightarrow> nat \<Rightarrow> 'g
    \<Rightarrow> pixel_sample list \<times> 'g" where
  "pixel_samples E width height depth spheres x y 0 g = ([], g)"
| "pixel_samples E width height depth spheres x y (Suc n) g =
     (let (jx, g1) = random_double E g;
          (jy, g2) = random_double E g1;
          (r, g3) = get_ray E ((real x + jx) / real width) ((real y + jy) / real height) g2;
          (c, g4) = color E r spheres (int depth) g3;
          (rest, g5) = pixel_samples E width height depth spheres x y n g4
      in (\<lparr> jitter_x = jx, jitter_y = jy,
             sample_u = (real x + jx) / real width, sample_v = (real y + jy) / real height,
             sample_color = c \<rparr> # rest, g5))"

text \<open>
  The sum of a list of colours.
\<close>

fun sum_vec :: "vec3 list \<Rightarrow> vec3" where
  "sum_vec [] = Vec3 0 0 0"
| "sum_vec (c # cs) = c + sum_vec cs"

text \<open>
  The transform in the spec's words, "sqrt then clamp then scale by 256", quantized by
  dropping the fraction; \<open>None\<close> where the square root is no number.
\<close>

definition encode_channel :: "(real \<Rightarrow> real option) \<Rightarrow> real \<Rightarrow> int option" where
  "encode_channel sycl_sqrt c =
     (case sycl_sqrt c of
        None \<Rightarrow> None
      | Some root_c \<Rightarrow> Some \<lfloor>256 * max 0 (min (999 / 1000) root_c)\<rfloor>)"

text \<open>
  The frame buffers and the square roots that the statement about the encoder covers: no
  component of a pixel is negative, and the square root of a number that is not negative
  is a number.
\<close>

definition no_negative_component :: "vec3 list \<Rightarrow> bool" where
  "no_negative_component fb_data \<longleftrightarrow> (\<forall>p\<in>set fb_data. 0 \<le> vx p \<and> 0 \<le> vy p \<and> 0 \<le> vz p)"

definition root_is_number :: "(real \<Rightarrow> real option) \<Rightarrow> bool" where
  "root_is_number sycl_sqrt \<longleftrightarrow> (\<forall>c. 0 \<le> c \<longrightarrow> sycl_sqrt c \<noteq> None)"

text \<open>
  The material of a rectangle.
\<close>

fun rect_material :: "rectangle_t \<Rightarrow> material_t" where
  "rect_material (xy_rect x0 x1 y0 y1 k mat) = mat"
| "rect_material (xz_rect x0 x1 z0 z1 k mat) = mat"
| "rect_material (yz_rect y0 y1 z0 z1 k mat) = mat"

text \<open>
  Modelled from the spec: the points of a rectangle lie on "the plane of fixed third
  coordinate", with the two in-plane coordinates within "the rectangle's two bounds".
\<close>

fun on_rect :: "rectangle_t \<Rightarrow> point \<Rightarrow> bool" where
  "on_rect (xy_rect x0 x1 y0 y1 k mat) p \<longleftrightarrow>
     x0 \<le> vx p \<and> vx p \<le> x1 \<and> y0 \<le> vy p \<and> vy p \<le> y1 \<and> vz p = k"
| "on_rect (xz_rect x0 x1 z0 z1 k mat) p \<longleftrightarrow>
     x0 \<le> vx p \<and> vx p \<le> x1 \<and> z0 \<le> vz p \<and> vz p \<le> z1 \<and> vy p = k"
| "on_rect (yz_rect y0 y1 z0 z1 k mat) p \<longleftrightarrow>
     y0 \<le> vy p \<and> vy p \<le> y1 \<and> z0 \<le> vz p \<and> vz p \<le> z1 \<and> vx p = k"

text \<open>The rectangular volume between two corners, and its interior.\<close>

definition in_volume :: "point \<Rightarrow> point \<Rightarrow> point \<Rightarrow> bool" where
  "in_volume p0 p1 p \<longleftrightarrow>
     vx p0 \<le> vx p \<and> vx p \<le> vx p1 \<and> vy p0 \<le> vy p \<and> vy p \<le> vy p1 \<and>
     vz p0 \<le> vz p \<and> vz p \<le> vz p1"

definition strictly_inside :: "point \<Rightarrow> point \<Rightarrow> point \<Rightarrow> bool" where
  "strictly_inside p0 p1 p \<longleftrightarrow>
     vx p0 < vx p \<and> vx p < vx p1 \<and> vy p0 < vy p \<and> vy p < vy p1 \<and>
     vz p0 < vz p \<and> vz p < vz p1"

section \<open>Auxiliary definitions of the proofs\<close>

text \<open>
  The common shape of the two scans, over any record type with a distance \<open>tof\<close> and
  any query \<open>q\<close>; the two loops above are instances of it.
\<close>

fun scan_loop ::
  "('a \<Rightarrow> real) \<Rightarrow> ('p \<Rightarrow> bound \<Rightarrow> 'a \<Rightarrow> bool \<times> 'a) \<Rightarrow> 'p list \<Rightarrow> 'a \<Rightarrow> bool \<Rightarrow> bound \<Rightarrow> 'a
    \<Rightarrow> 'a \<times> bool \<times> bound \<times> 'a" where
  "scan_loop tof q [] temp ha c rec = (temp, ha, c, rec)"
| "scan_loop tof q (s # ss) temp ha c rec =
     (let (ok, temp') = q s c temp in
      if ok then scan_loop tof q ss temp' True (Finite (tof temp')) temp'
      else scan_loop tof q ss temp' ha c rec)"

definition consistent ::
  "('a \<Rightarrow> real) \<Rightarrow> ('p \<Rightarrow> bound \<Rightarrow> 'a \<Rightarrow> bool \<times> 'a) \<Rightarrow> bound \<Rightarrow> 'p set \<Rightarrow> bool" where
  "consistent tof q tmax S \<longleftrightarrow>
     (\<forall>s\<in>S. \<forall>c tmp tmp'. c \<le> tmax \<longrightarrow>
        (fst (q s c tmp) \<longrightarrow> q s tmax tmp' = q s c tmp \<and> Finite (tof (snd (q s c tmp))) \<le> c) \<and>
        (fst (q s tmax tmp) \<and> Finite (tof (snd (q s tmax tmp))) < c \<longrightarrow> fst (q s c tmp')))"

text \<open>
  The scan's invariant after the primitives \<open>Q\<close>: the flag says whether one of them hits
  on the whole interval, the record is such a hit, and no hit of \<open>Q\<close> is nearer than
  \<open>closest_so_far\<close>.
\<close>

definition scan_inv ::
  "('a \<Rightarrow> real) \<Rightarrow> ('p \<Rightarrow> bound \<Rightarrow> 'a \<Rightarrow> bool \<times> 'a) \<Rightarrow> bound \<Rightarrow> 'a \<Rightarrow> 'p set \<Rightarrow> bool \<Rightarrow> bound
    \<Rightarrow> 'a \<Rightarrow> bool" where
  "scan_inv tof q tmax tmp Q ha c rec \<longleftrightarrow>
     c \<le> tmax \<and> (\<not> ha \<longrightarrow> c = tmax) \<and>
     (ha \<longleftrightarrow> (\<exists>s\<in>Q. fst (q s tmax tmp))) \<and>
     (ha \<longrightarrow> c = Finite (tof rec) \<and> (\<exists>s\<in>Q. q s tmax tmp = (True, rec))) \<and>
     (\<forall>s\<in>Q. fst (q s tmax tmp) \<longrightarrow> c \<le> Finite (tof (snd (q s tmax tmp))))"

text \<open>
  The rows of an image from the top one down, each from left to right, for any content
  \<open>f y x\<close> of the pixels.
\<close>

fun rows_of :: "(nat \<Rightarrow> nat \<Rightarrow> 'a) \<Rightarrow> nat \<Rightarrow> nat \<Rightarrow> 'a list" where
  "rows_of f width 0 = []"
| "rows_of f width (Suc y) = map (f y) [0..<width] @ rows_of f width y"

text \<open>
  The root that the spec's sphere reports, and the two roots of its quadratic.
\<close>

definition pick_root :: "real \<Rightarrow> bound \<Rightarrow> real \<Rightarrow> real \<Rightarrow> real option" where
  "pick_root tmin tmax root1 root2 =
     (if tmin < root1 \<and> Finite root1 < tmax then Some root1
      else if tmin < root2 \<and> Finite root2 < tmax then Some root2 else None)"

definition sphere_roots :: "sphere \<Rightarrow> ray \<Rightarrow> (real \<times> real) option" where
  "sphere_roots s r =
     (let oc = origin r - center s;
          a = dot (direction r) (direction r);
          half_b = dot oc (direction r);
          c = dot oc oc - radius s * radius s;
          discriminant = half_b * half_b - a * c
      in if discriminant < 0 then None
         else Some ((- half_b - sqrt discriminant) / a, (- half_b + sqrt discriminant) / a))"

section \<open>Concrete scenes\<close>

text \<open>
  Records, rays, spheres, boxes, kernels and a frame buffer on which the statements are
  evaluated.
\<close>

definition blank_record :: hit_record where
  "blank_record = \<lparr> hit_p = Vec3 0 0 0, hit_normal = Vec3 0 0 0, hit_t = 0, hit_material = Lambertian \<rparr>"

definition marked_record :: hit_record where
  "marked_record = \<lparr> hit_p = Vec3 1 2 3, hit_normal = Vec3 0 1 0, hit_t = 7, hit_material = Metal \<rparr>"

definition near_record :: hit_record where
  "near_record = \<lparr> hit_p = Vec3 0 0 (- 4), hit_normal = Vec3 0 0 1, hit_t = 4,
                   hit_material = Lambertian \<rparr>"

definition behind_record :: hit_record where
  "behind_record = \<lparr> hit_p = Vec3 0 0 4, hit_normal = Vec3 0 0 (- 1), hit_t = 8,
                     hit_material = Metal \<rparr>"


definition ray_along_z :: ray where
  "ray_along_z = \<lparr> origin = Vec3 0 0 0, direction = Vec3 0 0 (- 1) \<rparr>"

definition ray_back :: ray where
  "ray_back = \<lparr> origin = Vec3 0 0 (- 4), direction = Vec3 0 0 1 \<rparr>"

definition ray_forth :: ray where
  "ray_forth = \<lparr> origin = Vec3 0 0 4, direction = Vec3 0 0 (- 1) \<rparr>"


definition ray_up :: ray where
  "ray_up = \<lparr> origin = Vec3 0 0 0, direction = Vec3 0 3 0 \<rparr>"

definition ray_down :: ray where
  "ray_down = \<lparr> origin = Vec3 0 0 0, direction = Vec3 0 (- 2) 0 \<rparr>"

definition ray_from_below :: ray where
  "ray_from_below = \<lparr> origin = Vec3 (1/2) (1/2) (- 5), direction = Vec3 0 0 1 \<rparr>"

definition ray_to_edge :: ray where
  "ray_to_edge = \<lparr> origin = Vec3 (1/2) 2 2, direction = Vec3 0 (- 1) (- 1) \<rparr>"

definition ray_past_box :: ray where
  "ray_past_box = \<lparr> origin = Vec3 5 5 5, direction = Vec3 0 0 1 \<rparr>"

definition far_sphere :: sphere where
  "far_sphere = \<lparr> center = Vec3 0 0 (- 10), radius = 1, sphere_material = Metal \<rparr>"

definition far_sphere_matte :: sphere where
  "far_sphere_matte = \<lparr> center = Vec3 0 0 (- 10), radius = 1, sphere_material = Lambertian \<rparr>"

definition near_sphere :: sphere where
  "near_sphere = \<lparr> center = Vec3 0 0 (- 5), radius = 1, sphere_material = Lambertian \<rparr>"

definition near_sphere_metal :: sphere where
  "near_sphere_metal = \<lparr> center = Vec3 0 0 (- 5), radius = 1, sphere_material = Metal \<rparr>"

definition sphere_behind :: sphere where
  "sphere_behind = \<lparr> center = Vec3 0 0 5, radius = 1, sphere_material = Metal \<rparr>"


definition unit_box :: box where
  "unit_box = box (Vec3 0 0 0) (Vec3 1 1 1) Metal"

definition unit_box_reversed :: box where
  "unit_box_reversed = unit_box \<lparr> sides := rev (sides unit_box) \<rparr>"

definition half_grey :: vec3 where
  "half_grey = Vec3 (1 / 2) (1 / 2) (1 / 2)"

text \<open>
  A routine in the place of \<^verbatim>\<open>scatter_material\<close> that multiplies in place: it applies a
  material rule and multiplies the attenuation it is handed by the rule's. The call of
  \<^verbatim>\<open>main.cpp\<close> allows this routine as well as the one that stores the rule's attenuation
  (\<open>scatter_assigning\<close>), since it hands the attenuation over by reference; the sources do
  not say which of the two \<^verbatim>\<open>hitable.hpp\<close> has.
\<close>

definition scatter_in_place ::
  "(hit_record \<Rightarrow> ray \<Rightarrow> 'g \<Rightarrow> (vec3 \<times> ray) option \<times> 'g)
    \<Rightarrow> hit_record \<Rightarrow> ray \<Rightarrow> vec3 \<Rightarrow> ray \<Rightarrow> 'g \<Rightarrow> (bool \<times> vec3 \<times> ray) \<times> 'g" where
  "scatter_in_place scatter rec r_in attenuation scattered g =
     (case scatter rec r_in g of
        (Some (a, r_out), g') \<Rightarrow> ((True, attenuation * a, r_out), g')
      | (None, g') \<Rightarrow> ((False, attenuation, scattered), g'))"

text \<open>
  A kernel of mirrors over the spec's spheres, with a generator that counts its draws and
  the routine that multiplies in place; and the same kernel with the routine that stores
  the rule's attenuation.
\<close>

definition mirror_kernel :: "vec3 \<Rightarrow> (sphere, nat) externals" where
  "mirror_kernel albedo =
     \<lparr> sphere_hit = sphere_hit_spec,
       default_hit_record = blank_record,
       default_ray = ray_along_z,
       scatter_material = scatter_in_place (mirror_scatter albedo),
       random_double = (\<lambda>g. (1 / 2, Suc g)),
       random_in_unit_disk = (\<lambda>g. (Vec3 0 0 0, Suc g)) \<rparr>"


text \<open>
  A kernel for the pixel task. Its one surface is met by the rays that leave the point
  \<open>(13, 2, 3)\<close>, where the camera of \<^verbatim>\<open>get_ray\<close> is, and by no other ray; it scatters
  them straight up from the origin, with an attenuation of a tenth of the count of the
  generator. The generator counts its draws; the offsets it gives go through
  \<open>0, 1/4, 1/2, 3/4\<close>, the lens sample is the centre of the disk.
\<close>

definition lamp_kernel :: "(unit, nat) externals" where
  "lamp_kernel =
     \<lparr> sphere_hit = (\<lambda>s r tmin tmax rec.
                       if origin r = Vec3 13 2 3 then (True, near_record) else (False, rec)),
       default_hit_record = blank_record,
       default_ray = ray_along_z,
       scatter_material = (\<lambda>rec r_in attenuation scattered g.
                             ((True, scale (real g / 10) attenuation, ray_up), g)),
       random_double = (\<lambda>g. (real (g mod 4) / 4, Suc g)),
       random_in_unit_disk = (\<lambda>g. (Vec3 0 0 0, Suc g)) \<rparr>"

text \<open>
  A square root that is exact, as the library's is on the squares of the numbers with few
  digits that \<open>frame_of_four\<close> holds.
\<close>

definition exact_sqrt :: "real \<Rightarrow> real option" where
  "exact_sqrt c = (if 0 \<le> c then Some (sqrt c) else None)"

definition frame_of_four :: "vec3 list" where
  "frame_of_four = [Vec3 0 (1/4) 1, Vec3 4 (1/16) 0, Vec3 (1/4) (1/4) (1/4), Vec3 1 1 1]"

section \<open>Properties of the scans\<close>

subsection \<open>The caller's record when the scan finds nothing\<close>

lemma hit_world_loop_frame:
  "hit_world_loop hit r tmin ss temp_rec hit_anything closest_so_far rec = (temp', ha', c', rec')
    \<Longrightarrow> (hit_anything \<longrightarrow> ha') \<and> (\<not> ha' \<longrightarrow> rec' = rec \<and> c' = closest_so_far)"
proof (induction ss arbitrary: temp_rec hit_anything closest_so_far rec)
  case Nil
  then show ?case by simp
next
  case (Cons s ss)
  obtain ok t1 where h: "hit s r tmin closest_so_far temp_rec = (ok, t1)"
    by (cases "hit s r tmin closest_so_far temp_rec")
  show ?case
  proof (cases ok)
    case True
    with Cons.prems h
    have "hit_world_loop hit r tmin ss t1 True (Finite (hit_t t1)) t1 = (temp', ha', c', rec')"
      by simp
    from Cons.IH[OF this] show ?thesis by simp
  next
    case False
    with Cons.prems h
    have "hit_world_loop hit r tmin ss t1 hit_anything closest_so_far rec = (temp', ha', c', rec')"
      by simp
    from Cons.IH[OF this] show ?thesis by simp
  qed
qed

lemma box_hit_loop_frame:
  "box_hit_loop side_hit r tmin ss temp_rec temp_mat hit_anything closest_so_far rec mat
      = (temp', tm', ha', c', rec', mat')
    \<Longrightarrow> (hit_anything \<longrightarrow> ha') \<and> (\<not> ha' \<longrightarrow> rec' = rec \<and> mat' = mat \<and> c' = closest_so_far)"
proof (induction ss arbitrary: temp_rec temp_mat hit_anything closest_so_far rec mat)
  case Nil
  then show ?case by simp
next
  case (Cons s ss)
  obtain ok t1 m1 where h: "side_hit s r tmin closest_so_far temp_rec temp_mat = (ok, t1, m1)"
    by (cases "side_hit s r tmin closest_so_far temp_rec temp_mat")
  show ?case
  proof (cases ok)
    case True
    with Cons.prems h
    have "box_hit_loop side_hit r tmin ss t1 m1 True (Finite (hit_t t1)) t1 m1
            = (temp', tm', ha', c', rec', mat')"
      by simp
    from Cons.IH[OF this] show ?thesis by simp
  next
    case False
    with Cons.prems h
    have "box_hit_loop side_hit r tmin ss t1 m1 hit_anything closest_so_far rec mat
            = (temp', tm', ha', c', rec', mat')"
      by simp
    from Cons.IH[OF this] show ?thesis by simp
  qed
qed

lemma hit_world_miss_frame:
  "\<not> fst (hit_world hit temp_init r tmin tmax rec spheres)
     \<Longrightarrow> snd (hit_world hit temp_init r tmin tmax rec spheres) = rec"
proof -
  assume miss: "\<not> fst (hit_world hit temp_init r tmin tmax rec spheres)"
  obtain temp' ha' c' rec' where
    run: "hit_world_loop hit r tmin spheres temp_init False tmax rec = (temp', ha', c', rec')"
    by (cases "hit_world_loop hit r tmin spheres temp_init False tmax rec") auto
  with miss have "\<not> ha'" by (simp add: hit_world_def)
  with hit_world_loop_frame[OF run] have "rec' = rec" by simp
  with run show ?thesis by (simp add: hit_world_def)
qed

lemma box_hit_miss_frame:
  "\<not> fst (box_hit side_hit temp_init mat_init b r tmin tmax rec mat)
     \<Longrightarrow> snd (box_hit side_hit temp_init mat_init b r tmin tmax rec mat) = (rec, mat)"
proof -
  assume miss: "\<not> fst (box_hit side_hit temp_init mat_init b r tmin tmax rec mat)"
  obtain temp' tm' ha' c' rec' mat' where
    run: "box_hit_loop side_hit r tmin (sides b) temp_init mat_init False tmax rec mat
            = (temp', tm', ha', c', rec', mat')"
    by (cases "box_hit_loop side_hit r tmin (sides b) temp_init mat_init False tmax rec mat") auto
  with miss have "\<not> ha'" by (simp add: box_hit_def)
  with box_hit_loop_frame[OF run] have "rec' = rec \<and> mat' = mat" by simp
  with run show ?thesis by (simp add: box_hit_def)
qed

subsection \<open>The scan returns the nearest hit\<close>

lemma consistent_flag:
  assumes "consistent tof q tmax S" "s \<in> S"
  shows "fst (q s tmax tmp) = fst (q s tmax tmp')"
  using assms unfolding consistent_def
  by (metis order_refl)

lemma scan_inv_step_hit:
  assumes con: "consistent tof q tmax S" and s: "s \<in> S"
    and inv: "scan_inv tof q tmax tmp Q ha c rec"
    and h: "q s c temp = (True, temp')"
  shows "scan_inv tof q tmax tmp (insert s Q) True (Finite (tof temp')) temp'"
proof -
  from inv have c: "c \<le> tmax" by (simp add: scan_inv_def)
  from con s c h have full: "q s tmax tmp = (True, temp')" and le: "Finite (tof temp') \<le> c"
    unfolding consistent_def by (metis fst_conv snd_conv)+
  from inv have older: "\<forall>s\<in>Q. fst (q s tmax tmp) \<longrightarrow> c \<le> Finite (tof (snd (q s tmax tmp)))"
    by (simp add: scan_inv_def)
  have le_max: "Finite (tof temp') \<le> tmax"
    using le c by (rule order_trans)
  have nearer: "Finite (tof temp') \<le> Finite (tof (snd (q u tmax tmp)))"
    if "u \<in> insert s Q" "fst (q u tmax tmp)" for u
  proof (cases "u = s")
    case True
    with full show ?thesis by simp
  next
    case False
    with that older have "c \<le> Finite (tof (snd (q u tmax tmp)))" by blast
    with le show ?thesis by (rule order_trans)
  qed
  have ex1: "\<exists>u\<in>insert s Q. fst (q u tmax tmp)"
    using full by (intro bexI[of _ s]) simp_all
  have ex2: "\<exists>u\<in>insert s Q. q u tmax tmp = (True, temp')"
    using full by (intro bexI[of _ s]) simp_all
  show ?thesis
    unfolding scan_inv_def using le_max nearer ex1 ex2 by blast
qed

lemma scan_inv_step_miss:
  assumes con: "consistent tof q tmax S" and s: "s \<in> S"
    and inv: "scan_inv tof q tmax tmp Q ha c rec"
    and h: "q s c temp = (False, temp')"
  shows "scan_inv tof q tmax tmp (insert s Q) ha c rec"
proof -
  from inv have c: "c \<le> tmax" by (simp add: scan_inv_def)
  have far: "c \<le> Finite (tof (snd (q s tmax tmp)))" if "fst (q s tmax tmp)"
  proof (rule ccontr)
    assume "\<not> c \<le> Finite (tof (snd (q s tmax tmp)))"
    then have "Finite (tof (snd (q s tmax tmp))) < c" by simp
    with con s c that have "fst (q s c temp)"
      unfolding consistent_def by blast
    with h show False by simp
  qed
  have flag: "ha" if "fst (q s tmax tmp)"
  proof (rule ccontr)
    assume nha: "\<not> ha"
    with inv have "c = tmax" by (simp add: scan_inv_def)
    with h have "\<not> fst (q s tmax temp)" by simp
    with consistent_flag[OF con s, of temp tmp] that show False by simp
  qed
  show ?thesis
    using inv far flag unfolding scan_inv_def by auto
qed

lemma scan_loop_inv:
  assumes "consistent tof q tmax S" and "set ps \<subseteq> S"
    and "scan_inv tof q tmax tmp Q ha c rec"
    and "scan_loop tof q ps temp ha c rec = (temp', ha', c', rec')"
  shows "scan_inv tof q tmax tmp (Q \<union> set ps) ha' c' rec'"
  using assms
proof (induction ps arbitrary: Q temp ha c rec)
  case Nil
  then show ?case by simp
next
  case (Cons s ps)
  from Cons.prems(2) have s: "s \<in> S" and ps: "set ps \<subseteq> S" by simp_all
  obtain ok t1 where h: "q s c temp = (ok, t1)" by (cases "q s c temp")
  show ?case
  proof (cases ok)
    case True
    with h Cons.prems(4)
    have run: "scan_loop tof q ps t1 True (Finite (tof t1)) t1 = (temp', ha', c', rec')"
      by simp
    from True h have "q s c temp = (True, t1)" by simp
    from scan_inv_step_hit[OF Cons.prems(1) s Cons.prems(3) this]
    have "scan_inv tof q tmax tmp (insert s Q) True (Finite (tof t1)) t1" .
    from Cons.IH[OF Cons.prems(1) ps this run] show ?thesis by simp
  next
    case False
    with h Cons.prems(4) have run: "scan_loop tof q ps t1 ha c rec = (temp', ha', c', rec')"
      by simp
    from False h have "q s c temp = (False, t1)" by simp
    from scan_inv_step_miss[OF Cons.prems(1) s Cons.prems(3) this]
    have "scan_inv tof q tmax tmp (insert s Q) ha c rec" .
    from Cons.IH[OF Cons.prems(1) ps this run] show ?thesis by simp
  qed
qed

lemma scan_inv_init: "scan_inv tof q tmax tmp {} False tmax rec"
  by (simp add: scan_inv_def)

text \<open>What the invariant says once the whole list is scanned.\<close>

lemma scan_loop_nearest:
  assumes con: "consistent tof q tmax (set ps)"
    and run: "scan_loop tof q ps temp False tmax rec = (temp', ha', c', rec')"
  shows "ha' \<longleftrightarrow> (\<exists>s\<in>set ps. fst (q s tmax tmp))"
    and "ha' \<Longrightarrow> \<exists>s\<in>set ps. q s tmax tmp = (True, rec')"
    and "ha' \<Longrightarrow> s \<in> set ps \<Longrightarrow> fst (q s tmax tmp) \<Longrightarrow> tof rec' \<le> tof (snd (q s tmax tmp))"
proof -
  from scan_loop_inv[OF con subset_refl scan_inv_init run]
  have inv: "scan_inv tof q tmax tmp (set ps) ha' c' rec'" by simp
  from inv show "ha' \<longleftrightarrow> (\<exists>s\<in>set ps. fst (q s tmax tmp))"
    by (simp add: scan_inv_def)
  from inv show "ha' \<Longrightarrow> \<exists>s\<in>set ps. q s tmax tmp = (True, rec')"
    by (simp add: scan_inv_def)
  show "tof rec' \<le> tof (snd (q s tmax tmp))"
    if "ha'" "s \<in> set ps" "fst (q s tmax tmp)"
  proof -
    from inv that have "c' = Finite (tof rec')" and "c' \<le> Finite (tof (snd (q s tmax tmp)))"
      by (auto simp: scan_inv_def)
    then show ?thesis by simp
  qed
qed

lemma hit_world_loop_scan:
  "hit_world_loop hit r tmin ss temp ha c rec
     = scan_loop hit_t (\<lambda>s c tmp. hit s r tmin c tmp) ss temp ha c rec"
proof (induction ss arbitrary: temp ha c rec)
  case Nil
  show ?case by simp
next
  case (Cons s ss)
  obtain ok t1 where h: "hit s r tmin c temp = (ok, t1)" by (cases "hit s r tmin c temp")
  show ?case by (simp add: h Cons.IH)
qed

lemma box_hit_loop_scan:
  "box_hit_loop side_hit r tmin ss tr tm ha c rec mat =
     (case scan_loop (\<lambda>a. hit_t (fst a))
             (\<lambda>s c tmp. case side_hit s r tmin c (fst tmp) (snd tmp) of
                           (ok, tr', tm') \<Rightarrow> (ok, (tr', tm')))
             ss (tr, tm) ha c (rec, mat)
      of ((tr', tm'), ha', c', (rec', mat')) \<Rightarrow> (tr', tm', ha', c', rec', mat'))"
proof (induction ss arbitrary: tr tm ha c rec mat)
  case Nil
  show ?case by simp
next
  case (Cons s ss)
  obtain ok t1 m1 where h: "side_hit s r tmin c tr tm = (ok, t1, m1)"
    by (cases "side_hit s r tmin c tr tm")
  show ?case by (simp add: h Cons.IH)
qed

lemma interval_consistent_scan:
  "interval_consistent hit r tmin tmax S
     \<Longrightarrow> consistent hit_t (\<lambda>s c tmp. hit s r tmin c tmp) tmax S"
  unfolding interval_consistent_def consistent_def .

lemma side_interval_consistent_scan:
  assumes "side_interval_consistent side_hit r tmin tmax S"
  shows "consistent (\<lambda>a. hit_t (fst a))
           (\<lambda>s c tmp. case side_hit s r tmin c (fst tmp) (snd tmp) of
                         (ok, tr', tm') \<Rightarrow> (ok, (tr', tm'))) tmax S"
  unfolding consistent_def
proof (intro ballI allI impI conjI)
  fix s c and tmp tmp' :: "hit_record \<times> material_t"
  assume s: "s \<in> S" and c: "c \<le> tmax"
  let ?q = "\<lambda>s c tmp. case side_hit s r tmin c (fst tmp) (snd tmp) of
                         (ok, tr', tm') \<Rightarrow> (ok, (tr', tm'))"
  have q: "?q s c tmp = side_hit s r tmin c (fst tmp) (snd tmp)" for s c tmp
    by (simp split: prod.splits)
  {
    assume "fst (?q s c tmp)"
    then have h: "fst (side_hit s r tmin c (fst tmp) (snd tmp))" by (simp only: q)
    from assms s c h
    have "side_hit s r tmin tmax (fst tmp') (snd tmp') = side_hit s r tmin c (fst tmp) (snd tmp)"
      and "Finite (hit_t (fst (snd (side_hit s r tmin c (fst tmp) (snd tmp))))) \<le> c"
      unfolding side_interval_consistent_def by blast+
    then show "?q s tmax tmp' = ?q s c tmp"
      and "Finite (hit_t (fst (snd (?q s c tmp)))) \<le> c"
      by (simp_all only: q)
  }
  {
    assume "fst (?q s tmax tmp) \<and> Finite (hit_t (fst (snd (?q s tmax tmp)))) < c"
    then have "fst (side_hit s r tmin tmax (fst tmp) (snd tmp)) \<and>
        Finite (hit_t (fst (snd (side_hit s r tmin tmax (fst tmp) (snd tmp))))) < c"
      by (simp only: q)
    with assms s c have "fst (side_hit s r tmin c (fst tmp') (snd tmp'))"
      unfolding side_interval_consistent_def by blast
    then show "fst (?q s c tmp')" by (simp only: q)
  }
qed


subsection \<open>The spec's sphere and rectangle answer interval queries consistently\<close>

lemma sphere_record_t: "hit_t (sphere_record s r x) = x"
  by (simp add: sphere_record_def Let_def)

lemma Finite_le_less: "a \<le> b \<Longrightarrow> Finite b < c \<Longrightarrow> Finite a < c"
  by (cases c) auto

lemma pick_root_tighten:
  assumes "root1 \<le> root2" "c \<le> tmax" "pick_root tmin c root1 root2 = Some x"
  shows "pick_root tmin tmax root1 root2 = Some x \<and> Finite x < c"
proof -
  have up: "Finite y < tmax" if "Finite y < c" for y
    using that assms(2) by (rule less_le_trans)
  from assms(3) consider "x = root1" "tmin < root1" "Finite root1 < c"
    | "x = root2" "tmin < root2" "Finite root2 < c" "\<not> (tmin < root1 \<and> Finite root1 < c)"
    by (auto simp: pick_root_def split: if_splits)
  then show ?thesis
  proof cases
    case 1
    then show ?thesis using up by (simp add: pick_root_def)
  next
    case 2
    from Finite_le_less[OF assms(1) 2(3)] 2(4) have "\<not> tmin < root1" by simp
    with 2 up show ?thesis by (simp add: pick_root_def)
  qed
qed

lemma pick_root_below:
  assumes "root1 \<le> root2" "pick_root tmin tmax root1 root2 = Some x" "Finite x < c"
  shows "pick_root tmin c root1 root2 = Some x"
proof -
  from assms(2) consider "x = root1" "tmin < root1"
    | "x = root2" "tmin < root2" "Finite root2 < tmax" "\<not> (tmin < root1 \<and> Finite root1 < tmax)"
    by (auto simp: pick_root_def split: if_splits)
  then show ?thesis
  proof cases
    case 1
    with assms(3) show ?thesis by (simp add: pick_root_def)
  next
    case 2
    from Finite_le_less[OF assms(1) 2(3)] 2(4) have "\<not> tmin < root1" by simp
    with 2 assms(3) show ?thesis by (simp add: pick_root_def)
  qed
qed

lemma dot_self_nonneg: "0 \<le> dot v v"
  by (cases v) simp

lemma sphere_roots_ordered: "sphere_roots s r = Some (root1, root2) \<Longrightarrow> root1 \<le> root2"
  by (auto simp: sphere_roots_def Let_def split: if_splits
           intro!: divide_right_mono dot_self_nonneg)

lemma sphere_hit_by_roots:
  "sphere_hit_spec s r tmin tmax rec =
     (case sphere_roots s r of
        None \<Rightarrow> (False, rec)
      | Some (root1, root2) \<Rightarrow>
          (case pick_root tmin tmax root1 root2 of
             None \<Rightarrow> (False, rec)
           | Some x \<Rightarrow> (True, sphere_record s r x)))"
  by (simp add: sphere_hit_spec_def sphere_roots_def pick_root_def Let_def)

lemma sphere_hit_consistent: "interval_consistent sphere_hit_spec r tmin tmax S"
  unfolding interval_consistent_def
proof (intro ballI allI impI conjI)
  fix s c tmp tmp'
  assume c: "c \<le> tmax" and hit: "fst (sphere_hit_spec s r tmin c tmp)"
  from hit obtain root1 root2 x where
    rs: "sphere_roots s r = Some (root1, root2)" and x: "pick_root tmin c root1 root2 = Some x"
    by (auto simp: sphere_hit_by_roots split: option.splits)
  from pick_root_tighten[OF sphere_roots_ordered[OF rs] c x]
  have full: "pick_root tmin tmax root1 root2 = Some x" and lt: "Finite x < c" by simp_all
  show "sphere_hit_spec s r tmin tmax tmp' = sphere_hit_spec s r tmin c tmp"
    by (simp add: sphere_hit_by_roots rs x full)
  show "Finite (hit_t (snd (sphere_hit_spec s r tmin c tmp))) \<le> c"
    using lt by (simp add: sphere_hit_by_roots rs x sphere_record_t)
next
  fix s c tmp tmp'
  assume c: "c \<le> tmax"
    and hit: "fst (sphere_hit_spec s r tmin tmax tmp) \<and>
              Finite (hit_t (snd (sphere_hit_spec s r tmin tmax tmp))) < c"
  from hit obtain root1 root2 x where
    rs: "sphere_roots s r = Some (root1, root2)" and x: "pick_root tmin tmax root1 root2 = Some x"
    by (auto simp: sphere_hit_by_roots split: option.splits)
  from hit have "Finite x < c" by (simp add: sphere_hit_by_roots rs x sphere_record_t)
  from pick_root_below[OF sphere_roots_ordered[OF rs] x this]
  show "fst (sphere_hit_spec s r tmin c tmp')"
    by (simp add: sphere_hit_by_roots rs)
qed

lemma less_le_bound_trans: "(a::bound) < c \<Longrightarrow> c \<le> b \<Longrightarrow> a < b"
  by (rule less_le_trans)

lemma rect_hit_tighten:
  assumes "c \<le> tmax" "fst (rect_hit_spec s r tmin c tmp m)"
  shows "rect_hit_spec s r tmin tmax tmp' m' = rect_hit_spec s r tmin c tmp m"
    and "Finite (hit_t (fst (snd (rect_hit_spec s r tmin c tmp m)))) \<le> c"
  using assms
  by (cases s; auto simp: Let_def not_le split: if_splits dest: less_le_bound_trans)+

lemma rect_hit_below:
  assumes "fst (rect_hit_spec s r tmin tmax tmp m)"
    "Finite (hit_t (fst (snd (rect_hit_spec s r tmin tmax tmp m)))) < c"
  shows "fst (rect_hit_spec s r tmin c tmp' m')"
  using assms by (cases s; auto simp: Let_def not_le split: if_splits)

lemma rect_hit_consistent: "side_interval_consistent rect_hit_spec r tmin tmax S"
  unfolding side_interval_consistent_def
proof (intro ballI allI impI conjI)
  fix s c tmp m tmp' m'
  assume "c \<le> tmax" "fst (rect_hit_spec s r tmin c tmp m)"
  then show "rect_hit_spec s r tmin tmax tmp' m' = rect_hit_spec s r tmin c tmp m"
    and "Finite (hit_t (fst (snd (rect_hit_spec s r tmin c tmp m)))) \<le> c"
    by (rule rect_hit_tighten)+
next
  fix s c tmp m tmp' m'
  assume "fst (rect_hit_spec s r tmin tmax tmp m) \<and>
          Finite (hit_t (fst (snd (rect_hit_spec s r tmin tmax tmp m)))) < c"
  then show "fst (rect_hit_spec s r tmin c tmp' m')"
    using rect_hit_below by blast
qed

lemma far_hit:
  "sphere_hit_spec far_sphere ray_along_z (1/1000) Infinity rec
     = (True, \<lparr> hit_p = Vec3 0 0 (- 9), hit_normal = Vec3 0 0 1, hit_t = 9, hit_material = Metal \<rparr>)"
  by (simp add: sphere_hit_spec_def far_sphere_def ray_along_z_def sphere_record_def ray_at_def Let_def)

lemma near_hit:
  "sphere_hit_spec near_sphere ray_along_z (1/1000) (Finite 9) rec
     = (True, \<lparr> hit_p = Vec3 0 0 (- 4), hit_normal = Vec3 0 0 1, hit_t = 4, hit_material = Lambertian \<rparr>)"
  by (simp add: sphere_hit_spec_def near_sphere_def ray_along_z_def sphere_record_def ray_at_def Let_def)

lemma scene_scan:
  "hit_world sphere_hit_spec blank_record ray_along_z (1/1000) Infinity blank_record
       [far_sphere, near_sphere]
     = (True, \<lparr> hit_p = Vec3 0 0 (- 4), hit_normal = Vec3 0 0 1, hit_t = 4, hit_material = Lambertian \<rparr>)"
  by (simp add: hit_world_def far_hit near_hit)

lemma box_scan:
  "box_hit rect_hit_spec blank_record Lambertian unit_box ray_from_below (1/1000) Infinity
       blank_record Lambertian
     = (True, \<lparr> hit_p = Vec3 (1/2) (1/2) 0, hit_normal = Vec3 0 0 1, hit_t = 5, hit_material = Metal \<rparr>, Metal)"
  by (simp add: box_hit_def unit_box_def box_def ray_from_below_def ray_at_def Let_def)


lemma hit_world_nearest:
  assumes con: "interval_consistent hit r tmin tmax (set spheres)"
  shows "fst (hit_world hit temp_init r tmin tmax rec spheres)
           \<longleftrightarrow> (\<exists>s\<in>set spheres. fst (hit s r tmin tmax tmp))"
    and "fst (hit_world hit temp_init r tmin tmax rec spheres)
           \<Longrightarrow> \<exists>s\<in>set spheres. hit s r tmin tmax tmp
                 = (True, snd (hit_world hit temp_init r tmin tmax rec spheres))"
    and "fst (hit_world hit temp_init r tmin tmax rec spheres) \<Longrightarrow> s \<in> set spheres
           \<Longrightarrow> fst (hit s r tmin tmax tmp)
           \<Longrightarrow> hit_t (snd (hit_world hit temp_init r tmin tmax rec spheres))
                 \<le> hit_t (snd (hit s r tmin tmax tmp))"
proof -
  obtain temp' ha' c' rec' where
    run: "scan_loop hit_t (\<lambda>s c tmp. hit s r tmin c tmp) spheres temp_init False tmax rec
            = (temp', ha', c', rec')"
    by (cases "scan_loop hit_t (\<lambda>s c tmp. hit s r tmin c tmp) spheres temp_init False tmax rec") auto
  then have w: "hit_world hit temp_init r tmin tmax rec spheres = (ha', rec')"
    by (simp add: hit_world_def hit_world_loop_scan)
  note n = scan_loop_nearest[OF interval_consistent_scan[OF con] run, where tmp = tmp]
  from n(1) show "fst (hit_world hit temp_init r tmin tmax rec spheres)
           \<longleftrightarrow> (\<exists>s\<in>set spheres. fst (hit s r tmin tmax tmp))"
    by (simp add: w)
  from n(2) show "fst (hit_world hit temp_init r tmin tmax rec spheres)
           \<Longrightarrow> \<exists>s\<in>set spheres. hit s r tmin tmax tmp
                 = (True, snd (hit_world hit temp_init r tmin tmax rec spheres))"
    by (simp add: w)
  from n(3)[where s = s] show "fst (hit_world hit temp_init r tmin tmax rec spheres) \<Longrightarrow> s \<in> set spheres
           \<Longrightarrow> fst (hit s r tmin tmax tmp)
           \<Longrightarrow> hit_t (snd (hit_world hit temp_init r tmin tmax rec spheres))
                 \<le> hit_t (snd (hit s r tmin tmax tmp))"
    by (simp add: w)
qed

lemma box_hit_nearest:
  assumes con: "side_interval_consistent side_hit r tmin tmax (set (sides b))"
  shows "fst (box_hit side_hit temp_init mat_init b r tmin tmax rec mat)
           \<longleftrightarrow> (\<exists>s\<in>set (sides b). fst (side_hit s r tmin tmax tmp m))"
    and "fst (box_hit side_hit temp_init mat_init b r tmin tmax rec mat)
           \<Longrightarrow> \<exists>s\<in>set (sides b). side_hit s r tmin tmax tmp m
                 = (True, snd (box_hit side_hit temp_init mat_init b r tmin tmax rec mat))"
    and "fst (box_hit side_hit temp_init mat_init b r tmin tmax rec mat) \<Longrightarrow> s \<in> set (sides b)
           \<Longrightarrow> fst (side_hit s r tmin tmax tmp m)
           \<Longrightarrow> hit_t (fst (snd (box_hit side_hit temp_init mat_init b r tmin tmax rec mat)))
                 \<le> hit_t (fst (snd (side_hit s r tmin tmax tmp m)))"
proof -
  let ?q = "\<lambda>s c tmp. case side_hit s r tmin c (fst tmp) (snd tmp) of
                         (ok, tr', tm') \<Rightarrow> (ok, (tr', tm'))"
  have q: "?q s c tmp = side_hit s r tmin c (fst tmp) (snd tmp)" for s c tmp
    by (simp split: prod.splits)
  obtain tr' tm' ha' c' rec' mat' where
    run: "scan_loop (\<lambda>a. hit_t (fst a)) ?q (sides b) (temp_init, mat_init) False tmax (rec, mat)
            = ((tr', tm'), ha', c', (rec', mat'))"
    by (cases "scan_loop (\<lambda>a. hit_t (fst a)) ?q (sides b) (temp_init, mat_init) False tmax (rec, mat)")
       auto
  then have w: "box_hit side_hit temp_init mat_init b r tmin tmax rec mat = (ha', rec', mat')"
    by (simp add: box_hit_def box_hit_loop_scan)
  note n = scan_loop_nearest[OF side_interval_consistent_scan[OF con] run, where tmp = "(tmp, m)"]
  from n(1) show "fst (box_hit side_hit temp_init mat_init b r tmin tmax rec mat)
           \<longleftrightarrow> (\<exists>s\<in>set (sides b). fst (side_hit s r tmin tmax tmp m))"
    by (simp add: w q)
  from n(2) show "fst (box_hit side_hit temp_init mat_init b r tmin tmax rec mat)
           \<Longrightarrow> \<exists>s\<in>set (sides b). side_hit s r tmin tmax tmp m
                 = (True, snd (box_hit side_hit temp_init mat_init b r tmin tmax rec mat))"
    by (simp add: w q)
  from n(3)[where s = s] show "fst (box_hit side_hit temp_init mat_init b r tmin tmax rec mat)
           \<Longrightarrow> s \<in> set (sides b)
           \<Longrightarrow> fst (side_hit s r tmin tmax tmp m)
           \<Longrightarrow> hit_t (fst (snd (box_hit side_hit temp_init mat_init b r tmin tmax rec mat)))
                 \<le> hit_t (fst (snd (side_hit s r tmin tmax tmp m)))"
    by (simp add: w q)
qed

text \<open>
  Claim C1. For every ray, every interval and every list of primitives whose hit routine
  answers interval queries consistently (as the spec's sphere and rectangle do), the scan
  of \<^verbatim>\<open>hit_world\<close>, and likewise the scan of \<^verbatim>\<open>box::hit\<close> over the faces, reports a hit
  if and only if some primitive reports a hit on the whole interval; the record it returns
  is the hit one of the primitives reports on the whole interval, and no primitive reports
  a hit at a smaller distance \<open>t\<close>.
\<close>

theorem nearest_hit_scan:
  "(interval_consistent hit r tmin tmax (set spheres) \<longrightarrow>
      (fst (hit_world hit temp_init r tmin tmax rec spheres)
         \<longleftrightarrow> (\<exists>s\<in>set spheres. fst (hit s r tmin tmax tmp))) \<and>
      (fst (hit_world hit temp_init r tmin tmax rec spheres) \<longrightarrow>
         (\<exists>s\<in>set spheres. hit s r tmin tmax tmp
            = (True, snd (hit_world hit temp_init r tmin tmax rec spheres))) \<and>
         (\<forall>s\<in>set spheres. fst (hit s r tmin tmax tmp) \<longrightarrow>
            hit_t (snd (hit_world hit temp_init r tmin tmax rec spheres))
              \<le> hit_t (snd (hit s r tmin tmax tmp))))) \<and>
   (side_interval_consistent side_hit r tmin tmax (set (sides b)) \<longrightarrow>
      (fst (box_hit side_hit temp_init mat_init b r tmin tmax rec mat)
         \<longleftrightarrow> (\<exists>s\<in>set (sides b). fst (side_hit s r tmin tmax tmp m))) \<and>
      (fst (box_hit side_hit temp_init mat_init b r tmin tmax rec mat) \<longrightarrow>
         (\<exists>s\<in>set (sides b). side_hit s r tmin tmax tmp m
            = (True, snd (box_hit side_hit temp_init mat_init b r tmin tmax rec mat))) \<and>
         (\<forall>s\<in>set (sides b). fst (side_hit s r tmin tmax tmp m) \<longrightarrow>
            hit_t (fst (snd (box_hit side_hit temp_init mat_init b r tmin tmax rec mat)))
              \<le> hit_t (fst (snd (side_hit s r tmin tmax tmp m))))))"
proof (intro conjI impI ballI)
  assume con: "interval_consistent hit r tmin tmax (set spheres)"
  show "fst (hit_world hit temp_init r tmin tmax rec spheres)
          \<longleftrightarrow> (\<exists>s\<in>set spheres. fst (hit s r tmin tmax tmp))"
    by (rule hit_world_nearest(1)[OF con])
  show "\<exists>s\<in>set spheres. hit s r tmin tmax tmp
          = (True, snd (hit_world hit temp_init r tmin tmax rec spheres))"
    if "fst (hit_world hit temp_init r tmin tmax rec spheres)"
    using that by (rule hit_world_nearest(2)[OF con])
  show "hit_t (snd (hit_world hit temp_init r tmin tmax rec spheres))
          \<le> hit_t (snd (hit s r tmin tmax tmp))"
    if "fst (hit_world hit temp_init r tmin tmax rec spheres)" "s \<in> set spheres"
       "fst (hit s r tmin tmax tmp)" for s
    using that by (rule hit_world_nearest(3)[OF con])
next
  assume con: "side_interval_consistent side_hit r tmin tmax (set (sides b))"
  show "fst (box_hit side_hit temp_init mat_init b r tmin tmax rec mat)
          \<longleftrightarrow> (\<exists>s\<in>set (sides b). fst (side_hit s r tmin tmax tmp m))"
    by (rule box_hit_nearest(1)[OF con])
  show "\<exists>s\<in>set (sides b). side_hit s r tmin tmax tmp m
          = (True, snd (box_hit side_hit temp_init mat_init b r tmin tmax rec mat))"
    if "fst (box_hit side_hit temp_init mat_init b r tmin tmax rec mat)"
    using that by (rule box_hit_nearest(2)[OF con])
  show "hit_t (fst (snd (box_hit side_hit temp_init mat_init b r tmin tmax rec mat)))
          \<le> hit_t (fst (snd (side_hit s r tmin tmax tmp m)))"
    if "fst (box_hit side_hit temp_init mat_init b r tmin tmax rec mat)" "s \<in> set (sides b)"
       "fst (side_hit s r tmin tmax tmp m)" for s
    using that by (rule box_hit_nearest(3)[OF con])
qed

theorem nearest_hit_scan_witness:
  "interval_consistent sphere_hit_spec ray_along_z (1/1000) Infinity (set [far_sphere, near_sphere]) \<and>
   fst (hit_world sphere_hit_spec blank_record ray_along_z (1/1000) Infinity marked_record
          [far_sphere, near_sphere]) \<and>
   hit_t (snd (hit_world sphere_hit_spec blank_record ray_along_z (1/1000) Infinity marked_record
          [far_sphere, near_sphere]))
     \<le> hit_t (snd (sphere_hit_spec far_sphere ray_along_z (1/1000) Infinity blank_record)) \<and>
   hit_t (snd (hit_world sphere_hit_spec blank_record ray_along_z (1/1000) Infinity marked_record
          [far_sphere, near_sphere])) = 4 \<and>
   hit_t (snd (sphere_hit_spec far_sphere ray_along_z (1/1000) Infinity blank_record)) = 9 \<and>
   side_interval_consistent rect_hit_spec ray_from_below (1/1000) Infinity (set (sides unit_box)) \<and>
   fst (box_hit rect_hit_spec blank_record Lambertian unit_box ray_from_below (1/1000) Infinity
          marked_record Lambertian) \<and>
   hit_t (fst (snd (box_hit rect_hit_spec blank_record Lambertian unit_box ray_from_below (1/1000)
          Infinity marked_record Lambertian))) = 5"
proof -
  have c1: "interval_consistent sphere_hit_spec ray_along_z (1/1000) Infinity
              (set [far_sphere, near_sphere])"
    by (rule sphere_hit_consistent)
  have c2: "side_interval_consistent rect_hit_spec ray_from_below (1/1000) Infinity
              (set (sides unit_box))"
    by (rule rect_hit_consistent)
  have far: "far_sphere \<in> set [far_sphere, near_sphere]" by simp
  have w: "hit_world sphere_hit_spec blank_record ray_along_z (1/1000) Infinity marked_record
             [far_sphere, near_sphere]
           = (True, \<lparr> hit_p = Vec3 0 0 (- 4), hit_normal = Vec3 0 0 1, hit_t = 4,
                      hit_material = Lambertian \<rparr>)"
    by (simp add: hit_world_def far_hit near_hit)
  have b: "box_hit rect_hit_spec blank_record Lambertian unit_box ray_from_below (1/1000) Infinity
             marked_record Lambertian
           = (True, \<lparr> hit_p = Vec3 (1/2) (1/2) 0, hit_normal = Vec3 0 0 1, hit_t = 5,
                      hit_material = Metal \<rparr>, Metal)"
    by (simp add: box_hit_def unit_box_def box_def ray_from_below_def ray_at_def Let_def)
  from nearest_hit_scan[where hit = sphere_hit_spec and r = ray_along_z and tmin = "1/1000"
      and tmax = Infinity and spheres = "[far_sphere, near_sphere]" and temp_init = blank_record
      and rec = marked_record and tmp = blank_record and b = "unit_box\<lparr>sides := []\<rparr>"] c1 far
  have "hit_t (snd (hit_world sphere_hit_spec blank_record ray_along_z (1/1000) Infinity
          marked_record [far_sphere, near_sphere]))
        \<le> hit_t (snd (sphere_hit_spec far_sphere ray_along_z (1/1000) Infinity blank_record))"
    by (simp add: w far_hit)
  with c1 c2 show ?thesis
    by (simp add: w b far_hit)
qed

text \<open>
  Claim C10. When the scan of \<^verbatim>\<open>hit_world\<close> returns false, the caller's record is as it
  was; when the scan of \<^verbatim>\<open>box::hit\<close> returns false, the caller's record and material are
  as they were. This holds for every hit routine of the primitives, whatever it writes to
  the temporary record on a miss.
\<close>

theorem scan_miss_keeps_record:
  "(\<not> fst (hit_world hit temp_init r tmin tmax rec spheres)
      \<longrightarrow> snd (hit_world hit temp_init r tmin tmax rec spheres) = rec) \<and>
   (\<not> fst (box_hit side_hit temp_init mat_init b r tmin tmax rec mat)
      \<longrightarrow> snd (box_hit side_hit temp_init mat_init b r tmin tmax rec mat) = (rec, mat))"
  using hit_world_miss_frame box_hit_miss_frame by blast

theorem scan_miss_keeps_record_witness:
  "\<not> fst (hit_world sphere_hit_spec blank_record ray_along_z (1/1000) Infinity marked_record
            [sphere_behind]) \<and>
   snd (hit_world sphere_hit_spec blank_record ray_along_z (1/1000) Infinity marked_record
            [sphere_behind]) = marked_record \<and>
   \<not> fst (box_hit rect_hit_spec blank_record Lambertian unit_box ray_past_box (1/1000) Infinity
            marked_record Lambertian) \<and>
   snd (box_hit rect_hit_spec blank_record Lambertian unit_box ray_past_box (1/1000) Infinity
            marked_record Lambertian) = (marked_record, Lambertian)"
proof -
  have m1: "\<not> fst (hit_world sphere_hit_spec blank_record ray_along_z (1/1000) Infinity
                    marked_record [sphere_behind])"
    by (simp add: hit_world_def sphere_hit_spec_def sphere_behind_def ray_along_z_def Let_def)
  have m2: "\<not> fst (box_hit rect_hit_spec blank_record Lambertian unit_box ray_past_box (1/1000)
                    Infinity marked_record Lambertian)"
    by (simp add: box_hit_def unit_box_def box_def ray_past_box_def Let_def)
  from scan_miss_keeps_record[where hit = sphere_hit_spec and temp_init = blank_record
      and r = ray_along_z and tmin = "1/1000" and tmax = Infinity and rec = marked_record
      and spheres = "[sphere_behind]"] m1
  have k1: "snd (hit_world sphere_hit_spec blank_record ray_along_z (1/1000) Infinity
              marked_record [sphere_behind]) = marked_record"
    by blast
  from scan_miss_keeps_record[where side_hit = rect_hit_spec and temp_init = blank_record
      and mat_init = Lambertian and b = unit_box and r = ray_past_box and tmin = "1/1000"
      and tmax = Infinity and rec = marked_record and mat = Lambertian] m2
  have k2: "snd (box_hit rect_hit_spec blank_record Lambertian unit_box ray_past_box (1/1000)
              Infinity marked_record Lambertian) = (marked_record, Lambertian)"
    by blast
  from m1 m2 k1 k2 show ?thesis by blast
qed

subsection \<open>Permuting the primitives\<close>

lemma hit_world_perm_flag:
  assumes con: "interval_consistent hit r tmin tmax (set spheres)"
    and perm: "mset spheres' = mset spheres"
  shows "fst (hit_world hit temp_init r tmin tmax rec spheres')
           = fst (hit_world hit temp_init r tmin tmax rec spheres)"
proof -
  from perm have eq: "set spheres' = set spheres" by (rule mset_eq_setD)
  with con have con': "interval_consistent hit r tmin tmax (set spheres')" by simp
  show ?thesis
    using hit_world_nearest(1)[OF con, where tmp = temp_init]
          hit_world_nearest(1)[OF con', where tmp = temp_init] eq
    by simp
qed

lemma hit_world_perm_t:
  assumes con: "interval_consistent hit r tmin tmax (set spheres)"
    and perm: "mset spheres' = mset spheres"
  shows "hit_t (snd (hit_world hit temp_init r tmin tmax rec spheres'))
           = hit_t (snd (hit_world hit temp_init r tmin tmax rec spheres))"
proof (cases "fst (hit_world hit temp_init r tmin tmax rec spheres)")
  case False
  with hit_world_perm_flag[OF con perm]
  have "\<not> fst (hit_world hit temp_init r tmin tmax rec spheres')" by simp
  with False show ?thesis by (simp add: hit_world_miss_frame)
next
  case True
  from perm have eq: "set spheres' = set spheres" by (rule mset_eq_setD)
  with con have con': "interval_consistent hit r tmin tmax (set spheres')" by simp
  from True hit_world_perm_flag[OF con perm]
  have True': "fst (hit_world hit temp_init r tmin tmax rec spheres')" by simp
  let ?W = "hit_world hit temp_init r tmin tmax rec spheres"
  let ?W' = "hit_world hit temp_init r tmin tmax rec spheres'"
  from hit_world_nearest(2)[OF con True, where tmp = temp_init]
  obtain s where s: "s \<in> set spheres" "hit s r tmin tmax temp_init = (True, snd ?W)" by blast
  from hit_world_nearest(2)[OF con' True', where tmp = temp_init]
  obtain s' where s': "s' \<in> set spheres'" "hit s' r tmin tmax temp_init = (True, snd ?W')" by blast
  from hit_world_nearest(3)[OF con True, of s' temp_init] s' eq
  have a: "hit_t (snd ?W) \<le> hit_t (snd ?W')" by simp
  from hit_world_nearest(3)[OF con' True', of s temp_init] s eq
  have b: "hit_t (snd ?W') \<le> hit_t (snd ?W)" by simp
  from a b show ?thesis by simp
qed

lemma hit_world_perm_record:
  assumes con: "interval_consistent hit r tmin tmax (set spheres)"
    and perm: "mset spheres' = mset spheres"
    and ties: "\<forall>s\<in>set spheres. \<forall>s'\<in>set spheres.
                 fst (hit s r tmin tmax tmp) \<and> fst (hit s' r tmin tmax tmp) \<and>
                 hit_t (snd (hit s r tmin tmax tmp)) = hit_t (snd (hit s' r tmin tmax tmp)) \<and>
                 (\<forall>s''\<in>set spheres. fst (hit s'' r tmin tmax tmp) \<longrightarrow>
                    hit_t (snd (hit s r tmin tmax tmp)) \<le> hit_t (snd (hit s'' r tmin tmax tmp)))
                 \<longrightarrow> snd (hit s r tmin tmax tmp) = snd (hit s' r tmin tmax tmp)"
  shows "hit_world hit temp_init r tmin tmax rec spheres'
           = hit_world hit temp_init r tmin tmax rec spheres"
proof (cases "fst (hit_world hit temp_init r tmin tmax rec spheres)")
  case False
  with hit_world_perm_flag[OF con perm]
  have "\<not> fst (hit_world hit temp_init r tmin tmax rec spheres')" by simp
  with False show ?thesis by (simp add: hit_world_miss_frame prod_eq_iff)
next
  case True
  from perm have eq: "set spheres' = set spheres" by (rule mset_eq_setD)
  with con have con': "interval_consistent hit r tmin tmax (set spheres')" by simp
  from True hit_world_perm_flag[OF con perm]
  have True': "fst (hit_world hit temp_init r tmin tmax rec spheres')" by simp
  let ?W = "hit_world hit temp_init r tmin tmax rec spheres"
  let ?W' = "hit_world hit temp_init r tmin tmax rec spheres'"
  from hit_world_nearest(2)[OF con True, where tmp = tmp]
  obtain s where s: "s \<in> set spheres" "hit s r tmin tmax tmp = (True, snd ?W)" by blast
  from hit_world_nearest(2)[OF con' True', where tmp = tmp]
  obtain s' where s': "s' \<in> set spheres" "hit s' r tmin tmax tmp = (True, snd ?W')"
    using eq by blast
  have fs: "fst (hit s r tmin tmax tmp)" "fst (hit s' r tmin tmax tmp)"
    using s(2) s'(2) by simp_all
  have teq: "hit_t (snd (hit s r tmin tmax tmp)) = hit_t (snd (hit s' r tmin tmax tmp))"
    using s(2) s'(2) hit_world_perm_t[OF con perm, of temp_init rec] by simp
  have "hit_t (snd (hit s r tmin tmax tmp)) \<le> hit_t (snd (hit s'' r tmin tmax tmp))"
    if "s'' \<in> set spheres" "fst (hit s'' r tmin tmax tmp)" for s''
    using hit_world_nearest(3)[OF con True that] s(2) by simp
  then have least: "\<forall>s''\<in>set spheres. fst (hit s'' r tmin tmax tmp) \<longrightarrow>
      hit_t (snd (hit s r tmin tmax tmp)) \<le> hit_t (snd (hit s'' r tmin tmax tmp))"
    by blast
  have "snd (hit s r tmin tmax tmp) = snd (hit s' r tmin tmax tmp)"
    by (rule ties[rule_format, OF s(1) s'(1)]) (intro conjI fs teq least)
  with s(2) s'(2) have "snd ?W' = snd ?W" by simp
  with True True' show ?thesis by (simp add: prod_eq_iff)
qed


lemma box_hit_perm_flag:
  assumes con: "side_interval_consistent side_hit r tmin tmax (set (sides b))"
    and perm: "mset (sides b') = mset (sides b)"
  shows "fst (box_hit side_hit temp_init mat_init b' r tmin tmax rec mat)
           = fst (box_hit side_hit temp_init mat_init b r tmin tmax rec mat)"
proof -
  from perm have eq: "set (sides b') = set (sides b)" by (rule mset_eq_setD)
  with con have con': "side_interval_consistent side_hit r tmin tmax (set (sides b'))" by simp
  show ?thesis
    using box_hit_nearest(1)[OF con, where tmp = temp_init and m = mat_init]
          box_hit_nearest(1)[OF con', where tmp = temp_init and m = mat_init] eq
    by simp
qed

lemma box_hit_perm_t:
  assumes con: "side_interval_consistent side_hit r tmin tmax (set (sides b))"
    and perm: "mset (sides b') = mset (sides b)"
  shows "hit_t (fst (snd (box_hit side_hit temp_init mat_init b' r tmin tmax rec mat)))
           = hit_t (fst (snd (box_hit side_hit temp_init mat_init b r tmin tmax rec mat)))"
proof (cases "fst (box_hit side_hit temp_init mat_init b r tmin tmax rec mat)")
  case False
  with box_hit_perm_flag[OF con perm]
  have "\<not> fst (box_hit side_hit temp_init mat_init b' r tmin tmax rec mat)" by simp
  with False show ?thesis by (simp add: box_hit_miss_frame)
next
  case True
  from perm have eq: "set (sides b') = set (sides b)" by (rule mset_eq_setD)
  with con have con': "side_interval_consistent side_hit r tmin tmax (set (sides b'))" by simp
  from True box_hit_perm_flag[OF con perm]
  have True': "fst (box_hit side_hit temp_init mat_init b' r tmin tmax rec mat)" by simp
  let ?W = "box_hit side_hit temp_init mat_init b r tmin tmax rec mat"
  let ?W' = "box_hit side_hit temp_init mat_init b' r tmin tmax rec mat"
  from box_hit_nearest(2)[OF con True, where tmp = temp_init and m = mat_init]
  obtain s where s: "s \<in> set (sides b)"
      "side_hit s r tmin tmax temp_init mat_init = (True, snd ?W)" by blast
  from box_hit_nearest(2)[OF con' True', where tmp = temp_init and m = mat_init]
  obtain s' where s': "s' \<in> set (sides b')"
      "side_hit s' r tmin tmax temp_init mat_init = (True, snd ?W')" by blast
  from box_hit_nearest(3)[OF con True, of s' temp_init mat_init] s' eq
  have a: "hit_t (fst (snd ?W)) \<le> hit_t (fst (snd ?W'))" by simp
  from box_hit_nearest(3)[OF con' True', of s temp_init mat_init] s eq
  have b: "hit_t (fst (snd ?W')) \<le> hit_t (fst (snd ?W))" by simp
  from a b show ?thesis by simp
qed

lemma box_hit_perm_record:
  assumes con: "side_interval_consistent side_hit r tmin tmax (set (sides b))"
    and perm: "mset (sides b') = mset (sides b)"
    and ties: "\<forall>s\<in>set (sides b). \<forall>s'\<in>set (sides b).
                 fst (side_hit s r tmin tmax tmp m) \<and> fst (side_hit s' r tmin tmax tmp m) \<and>
                 hit_t (fst (snd (side_hit s r tmin tmax tmp m)))
                   = hit_t (fst (snd (side_hit s' r tmin tmax tmp m))) \<and>
                 (\<forall>s''\<in>set (sides b). fst (side_hit s'' r tmin tmax tmp m) \<longrightarrow>
                    hit_t (fst (snd (side_hit s r tmin tmax tmp m)))
                      \<le> hit_t (fst (snd (side_hit s'' r tmin tmax tmp m))))
                 \<longrightarrow> snd (side_hit s r tmin tmax tmp m) = snd (side_hit s' r tmin tmax tmp m)"
  shows "box_hit side_hit temp_init mat_init b' r tmin tmax rec mat
           = box_hit side_hit temp_init mat_init b r tmin tmax rec mat"
proof (cases "fst (box_hit side_hit temp_init mat_init b r tmin tmax rec mat)")
  case False
  with box_hit_perm_flag[OF con perm]
  have "\<not> fst (box_hit side_hit temp_init mat_init b' r tmin tmax rec mat)" by simp
  with False show ?thesis by (simp add: box_hit_miss_frame prod_eq_iff)
next
  case True
  from perm have eq: "set (sides b') = set (sides b)" by (rule mset_eq_setD)
  with con have con': "side_interval_consistent side_hit r tmin tmax (set (sides b'))" by simp
  from True box_hit_perm_flag[OF con perm]
  have True': "fst (box_hit side_hit temp_init mat_init b' r tmin tmax rec mat)" by simp
  let ?W = "box_hit side_hit temp_init mat_init b r tmin tmax rec mat"
  let ?W' = "box_hit side_hit temp_init mat_init b' r tmin tmax rec mat"
  from box_hit_nearest(2)[OF con True, where tmp = tmp and m = m]
  obtain s where s: "s \<in> set (sides b)" "side_hit s r tmin tmax tmp m = (True, snd ?W)"
    by blast
  from box_hit_nearest(2)[OF con' True', where tmp = tmp and m = m]
  obtain s' where s': "s' \<in> set (sides b)" "side_hit s' r tmin tmax tmp m = (True, snd ?W')"
    using eq by blast
  have fs: "fst (side_hit s r tmin tmax tmp m)" "fst (side_hit s' r tmin tmax tmp m)"
    using s(2) s'(2) by simp_all
  have teq: "hit_t (fst (snd (side_hit s r tmin tmax tmp m)))
               = hit_t (fst (snd (side_hit s' r tmin tmax tmp m)))"
    using s(2) s'(2) box_hit_perm_t[OF con perm, of temp_init mat_init rec mat] by simp
  have "hit_t (fst (snd (side_hit s r tmin tmax tmp m)))
          \<le> hit_t (fst (snd (side_hit s'' r tmin tmax tmp m)))"
    if "s'' \<in> set (sides b)" "fst (side_hit s'' r tmin tmax tmp m)" for s''
    using box_hit_nearest(3)[OF con True that] s(2) by simp
  then have least: "\<forall>s''\<in>set (sides b). fst (side_hit s'' r tmin tmax tmp m) \<longrightarrow>
      hit_t (fst (snd (side_hit s r tmin tmax tmp m)))
        \<le> hit_t (fst (snd (side_hit s'' r tmin tmax tmp m)))"
    by blast
  have "snd (side_hit s r tmin tmax tmp m) = snd (side_hit s' r tmin tmax tmp m)"
    by (rule ties[rule_format, OF s(1) s'(1)]) (intro conjI fs teq least)
  with s(2) s'(2) have "snd ?W' = snd ?W" by simp
  with True True' show ?thesis by (simp add: prod_eq_iff)
qed

text \<open>
  Claim C7, as amended. For every ray, every interval, every list of primitives whose hit
  routine answers interval queries consistently and every permutation of the list, the scan
  of \<^verbatim>\<open>hit_world\<close> (and likewise of \<^verbatim>\<open>box::hit\<close> over a permutation of the faces) reports
  a hit for the one exactly when it does for the other, and returns the same distance
  \<open>t\<close>. The returned record (and material) is the same as well whenever the primitives
  that report a hit at the nearest distance, the one no primitive's hit lies below, report
  the same record there; a tie between farther hits does not matter.
\<close>

theorem scan_permutation:
  "(interval_consistent hit r tmin tmax (set spheres) \<and> mset spheres' = mset spheres \<longrightarrow>
      fst (hit_world hit temp_init r tmin tmax rec spheres')
        = fst (hit_world hit temp_init r tmin tmax rec spheres) \<and>
      hit_t (snd (hit_world hit temp_init r tmin tmax rec spheres'))
        = hit_t (snd (hit_world hit temp_init r tmin tmax rec spheres)) \<and>
      ((\<forall>s\<in>set spheres. \<forall>s'\<in>set spheres.
          fst (hit s r tmin tmax tmp) \<and> fst (hit s' r tmin tmax tmp) \<and>
          hit_t (snd (hit s r tmin tmax tmp)) = hit_t (snd (hit s' r tmin tmax tmp)) \<and>
          (\<forall>s''\<in>set spheres. fst (hit s'' r tmin tmax tmp) \<longrightarrow>
             hit_t (snd (hit s r tmin tmax tmp)) \<le> hit_t (snd (hit s'' r tmin tmax tmp)))
          \<longrightarrow> snd (hit s r tmin tmax tmp) = snd (hit s' r tmin tmax tmp))
       \<longrightarrow> hit_world hit temp_init r tmin tmax rec spheres'
             = hit_world hit temp_init r tmin tmax rec spheres)) \<and>
   (side_interval_consistent side_hit r tmin tmax (set (sides b)) \<and>
    mset (sides b') = mset (sides b) \<longrightarrow>
      fst (box_hit side_hit temp_init mat_init b' r tmin tmax rec mat)
        = fst (box_hit side_hit temp_init mat_init b r tmin tmax rec mat) \<and>
      hit_t (fst (snd (box_hit side_hit temp_init mat_init b' r tmin tmax rec mat)))
        = hit_t (fst (snd (box_hit side_hit temp_init mat_init b r tmin tmax rec mat))) \<and>
      ((\<forall>s\<in>set (sides b). \<forall>s'\<in>set (sides b).
          fst (side_hit s r tmin tmax tmp m) \<and> fst (side_hit s' r tmin tmax tmp m) \<and>
          hit_t (fst (snd (side_hit s r tmin tmax tmp m)))
            = hit_t (fst (snd (side_hit s' r tmin tmax tmp m))) \<and>
          (\<forall>s''\<in>set (sides b). fst (side_hit s'' r tmin tmax tmp m) \<longrightarrow>
             hit_t (fst (snd (side_hit s r tmin tmax tmp m)))
               \<le> hit_t (fst (snd (side_hit s'' r tmin tmax tmp m))))
          \<longrightarrow> snd (side_hit s r tmin tmax tmp m) = snd (side_hit s' r tmin tmax tmp m))
       \<longrightarrow> box_hit side_hit temp_init mat_init b' r tmin tmax rec mat
             = box_hit side_hit temp_init mat_init b r tmin tmax rec mat))"
proof (intro conjI impI)
  assume a: "interval_consistent hit r tmin tmax (set spheres) \<and> mset spheres' = mset spheres"
  then have con: "interval_consistent hit r tmin tmax (set spheres)"
    and perm: "mset spheres' = mset spheres" by simp_all
  show "fst (hit_world hit temp_init r tmin tmax rec spheres')
        = fst (hit_world hit temp_init r tmin tmax rec spheres)"
    by (rule hit_world_perm_flag[OF con perm])
  show "hit_t (snd (hit_world hit temp_init r tmin tmax rec spheres'))
        = hit_t (snd (hit_world hit temp_init r tmin tmax rec spheres))"
    by (rule hit_world_perm_t[OF con perm])
  show "hit_world hit temp_init r tmin tmax rec spheres'
        = hit_world hit temp_init r tmin tmax rec spheres"
    if "\<forall>s\<in>set spheres. \<forall>s'\<in>set spheres.
          fst (hit s r tmin tmax tmp) \<and> fst (hit s' r tmin tmax tmp) \<and>
          hit_t (snd (hit s r tmin tmax tmp)) = hit_t (snd (hit s' r tmin tmax tmp)) \<and>
          (\<forall>s''\<in>set spheres. fst (hit s'' r tmin tmax tmp) \<longrightarrow>
             hit_t (snd (hit s r tmin tmax tmp)) \<le> hit_t (snd (hit s'' r tmin tmax tmp)))
          \<longrightarrow> snd (hit s r tmin tmax tmp) = snd (hit s' r tmin tmax tmp)"
    using that by (rule hit_world_perm_record[OF con perm])
next
  assume a: "side_interval_consistent side_hit r tmin tmax (set (sides b)) \<and>
             mset (sides b') = mset (sides b)"
  then have con: "side_interval_consistent side_hit r tmin tmax (set (sides b))"
    and perm: "mset (sides b') = mset (sides b)" by simp_all
  show "fst (box_hit side_hit temp_init mat_init b' r tmin tmax rec mat)
        = fst (box_hit side_hit temp_init mat_init b r tmin tmax rec mat)"
    by (rule box_hit_perm_flag[OF con perm])
  show "hit_t (fst (snd (box_hit side_hit temp_init mat_init b' r tmin tmax rec mat)))
        = hit_t (fst (snd (box_hit side_hit temp_init mat_init b r tmin tmax rec mat)))"
    by (rule box_hit_perm_t[OF con perm])
  show "box_hit side_hit temp_init mat_init b' r tmin tmax rec mat
        = box_hit side_hit temp_init mat_init b r tmin tmax rec mat"
    if "\<forall>s\<in>set (sides b). \<forall>s'\<in>set (sides b).
          fst (side_hit s r tmin tmax tmp m) \<and> fst (side_hit s' r tmin tmax tmp m) \<and>
          hit_t (fst (snd (side_hit s r tmin tmax tmp m)))
            = hit_t (fst (snd (side_hit s' r tmin tmax tmp m))) \<and>
          (\<forall>s''\<in>set (sides b). fst (side_hit s'' r tmin tmax tmp m) \<longrightarrow>
             hit_t (fst (snd (side_hit s r tmin tmax tmp m)))
               \<le> hit_t (fst (snd (side_hit s'' r tmin tmax tmp m))))
          \<longrightarrow> snd (side_hit s r tmin tmax tmp m) = snd (side_hit s' r tmin tmax tmp m)"
    using that by (rule box_hit_perm_record[OF con perm])
qed

lemma near_metal_hit:
  "sphere_hit_spec near_sphere_metal ray_along_z (1/1000) Infinity rec
     = (True, \<lparr> hit_p = Vec3 0 0 (- 4), hit_normal = Vec3 0 0 1, hit_t = 4, hit_material = Metal \<rparr>)"
  by (simp add: sphere_hit_spec_def near_sphere_metal_def ray_along_z_def sphere_record_def
                ray_at_def Let_def)

lemma near_hit_whole:
  "sphere_hit_spec near_sphere ray_along_z (1/1000) Infinity rec
     = (True, \<lparr> hit_p = Vec3 0 0 (- 4), hit_normal = Vec3 0 0 1, hit_t = 4, hit_material = Lambertian \<rparr>)"
  by (simp add: sphere_hit_spec_def near_sphere_def ray_along_z_def sphere_record_def
                ray_at_def Let_def)

lemma near_miss_tied:
  "sphere_hit_spec near_sphere ray_along_z (1/1000) (Finite 4) rec = (False, rec)"
  "sphere_hit_spec near_sphere_metal ray_along_z (1/1000) (Finite 4) rec = (False, rec)"
  by (simp_all add: sphere_hit_spec_def near_sphere_def near_sphere_metal_def ray_along_z_def
                    Let_def)

lemma tied_spheres_scan:
  "hit_world sphere_hit_spec blank_record ray_along_z (1/1000) Infinity blank_record
       [near_sphere, near_sphere_metal]
     = (True, \<lparr> hit_p = Vec3 0 0 (- 4), hit_normal = Vec3 0 0 1, hit_t = 4,
                hit_material = Lambertian \<rparr>)"
  "hit_world sphere_hit_spec blank_record ray_along_z (1/1000) Infinity blank_record
       [near_sphere_metal, near_sphere]
     = (True, \<lparr> hit_p = Vec3 0 0 (- 4), hit_normal = Vec3 0 0 1, hit_t = 4,
                hit_material = Metal \<rparr>)"
  by (simp_all add: hit_world_def near_hit_whole near_metal_hit near_miss_tied)

lemma edge_box_scan:
  "box_hit rect_hit_spec blank_record Lambertian unit_box ray_to_edge (1/1000) Infinity
       blank_record Lambertian
     = (True, \<lparr> hit_p = Vec3 (1/2) 1 1, hit_normal = Vec3 0 0 1, hit_t = 1,
                hit_material = Metal \<rparr>, Metal)"
  "box_hit rect_hit_spec blank_record Lambertian unit_box_reversed ray_to_edge (1/1000) Infinity
       blank_record Lambertian
     = (True, \<lparr> hit_p = Vec3 (1/2) 1 1, hit_normal = Vec3 0 1 0, hit_t = 1,
                hit_material = Metal \<rparr>, Metal)"
  by (simp_all add: box_hit_def unit_box_reversed_def unit_box_def box_def ray_to_edge_def
                    ray_at_def Let_def)

theorem scan_permutation_counterexample:
  "mset [near_sphere_metal, near_sphere] = mset [near_sphere, near_sphere_metal] \<and>
   hit_world sphere_hit_spec blank_record ray_along_z (1/1000) Infinity blank_record
       [near_sphere_metal, near_sphere]
     \<noteq> hit_world sphere_hit_spec blank_record ray_along_z (1/1000) Infinity blank_record
       [near_sphere, near_sphere_metal] \<and>
   mset (sides unit_box_reversed) = mset (sides unit_box) \<and>
   box_hit rect_hit_spec blank_record Lambertian unit_box_reversed ray_to_edge (1/1000) Infinity
       blank_record Lambertian
     \<noteq> box_hit rect_hit_spec blank_record Lambertian unit_box ray_to_edge (1/1000) Infinity
       blank_record Lambertian"
proof -
  have "mset (sides unit_box_reversed) = mset (sides unit_box)"
    by (simp add: unit_box_reversed_def)
  then show ?thesis
    by (simp add: tied_spheres_scan edge_box_scan)
qed


lemma unit_box_sides:
  "sides unit_box =
     [ xy_rect 0 1 0 1 1 Metal, xy_rect 0 1 0 1 0 Metal,
       xz_rect 0 1 0 1 1 Metal, xz_rect 0 1 0 1 0 Metal,
       yz_rect 0 1 0 1 1 Metal, yz_rect 0 1 0 1 0 Metal ]"
  by (simp add: unit_box_def box_def)

lemma from_below_sides:
  "rect_hit_spec (xy_rect 0 1 0 1 1 Metal) ray_from_below (1/1000) Infinity rec m
     = (True, \<lparr> hit_p = Vec3 (1/2) (1/2) 1, hit_normal = Vec3 0 0 1, hit_t = 6,
                hit_material = Metal \<rparr>, Metal)"
  "rect_hit_spec (xy_rect 0 1 0 1 0 Metal) ray_from_below (1/1000) Infinity rec m
     = (True, \<lparr> hit_p = Vec3 (1/2) (1/2) 0, hit_normal = Vec3 0 0 1, hit_t = 5,
                hit_material = Metal \<rparr>, Metal)"
  "rect_hit_spec (xz_rect 0 1 0 1 1 Metal) ray_from_below (1/1000) Infinity rec m = (False, rec, m)"
  "rect_hit_spec (xz_rect 0 1 0 1 0 Metal) ray_from_below (1/1000) Infinity rec m = (False, rec, m)"
  "rect_hit_spec (yz_rect 0 1 0 1 1 Metal) ray_from_below (1/1000) Infinity rec m = (False, rec, m)"
  "rect_hit_spec (yz_rect 0 1 0 1 0 Metal) ray_from_below (1/1000) Infinity rec m = (False, rec, m)"
  by (simp_all add: ray_from_below_def ray_at_def Let_def)

lemma far_matte_hit:
  "sphere_hit_spec far_sphere_matte ray_along_z (1/1000) Infinity rec
     = (True, \<lparr> hit_p = Vec3 0 0 (- 9), hit_normal = Vec3 0 0 1, hit_t = 9,
                hit_material = Lambertian \<rparr>)"
  by (simp add: sphere_hit_spec_def far_sphere_matte_def ray_along_z_def sphere_record_def
                ray_at_def Let_def)

theorem scan_permutation_witness:
  "interval_consistent sphere_hit_spec ray_along_z (1/1000) Infinity
     (set [far_sphere, far_sphere_matte, near_sphere]) \<and>
   mset [near_sphere, far_sphere_matte, far_sphere]
     = mset [far_sphere, far_sphere_matte, near_sphere] \<and>
   hit_t (snd (sphere_hit_spec far_sphere ray_along_z (1/1000) Infinity blank_record))
     = hit_t (snd (sphere_hit_spec far_sphere_matte ray_along_z (1/1000) Infinity blank_record)) \<and>
   snd (sphere_hit_spec far_sphere ray_along_z (1/1000) Infinity blank_record)
     \<noteq> snd (sphere_hit_spec far_sphere_matte ray_along_z (1/1000) Infinity blank_record) \<and>
   hit_world sphere_hit_spec blank_record ray_along_z (1/1000) Infinity marked_record
       [near_sphere, far_sphere_matte, far_sphere]
     = hit_world sphere_hit_spec blank_record ray_along_z (1/1000) Infinity marked_record
       [far_sphere, far_sphere_matte, near_sphere] \<and>
   side_interval_consistent rect_hit_spec ray_from_below (1/1000) Infinity (set (sides unit_box)) \<and>
   mset (sides unit_box_reversed) = mset (sides unit_box) \<and>
   box_hit rect_hit_spec blank_record Lambertian unit_box_reversed ray_from_below (1/1000)
       Infinity marked_record Lambertian
     = box_hit rect_hit_spec blank_record Lambertian unit_box ray_from_below (1/1000)
       Infinity marked_record Lambertian"
proof -
  have c1: "interval_consistent sphere_hit_spec ray_along_z (1/1000) Infinity
              (set [far_sphere, far_sphere_matte, near_sphere])"
    by (rule sphere_hit_consistent)
  have p1: "mset [near_sphere, far_sphere_matte, far_sphere]
              = mset [far_sphere, far_sphere_matte, near_sphere]"
    by (simp add: add_mset_commute)
  have far_t: "hit_t (snd (sphere_hit_spec far_sphere ray_along_z (1/1000) Infinity blank_record))
      = hit_t (snd (sphere_hit_spec far_sphere_matte ray_along_z (1/1000) Infinity blank_record))"
    by (simp add: far_hit far_matte_hit)
  have far_rec: "snd (sphere_hit_spec far_sphere ray_along_z (1/1000) Infinity blank_record)
      \<noteq> snd (sphere_hit_spec far_sphere_matte ray_along_z (1/1000) Infinity blank_record)"
    by (simp add: far_hit far_matte_hit)
  have t1: "\<forall>s\<in>set [far_sphere, far_sphere_matte, near_sphere].
            \<forall>s'\<in>set [far_sphere, far_sphere_matte, near_sphere].
              fst (sphere_hit_spec s ray_along_z (1/1000) Infinity blank_record) \<and>
              fst (sphere_hit_spec s' ray_along_z (1/1000) Infinity blank_record) \<and>
              hit_t (snd (sphere_hit_spec s ray_along_z (1/1000) Infinity blank_record))
                = hit_t (snd (sphere_hit_spec s' ray_along_z (1/1000) Infinity blank_record)) \<and>
              (\<forall>s''\<in>set [far_sphere, far_sphere_matte, near_sphere].
                 fst (sphere_hit_spec s'' ray_along_z (1/1000) Infinity blank_record) \<longrightarrow>
                 hit_t (snd (sphere_hit_spec s ray_along_z (1/1000) Infinity blank_record))
                   \<le> hit_t (snd (sphere_hit_spec s'' ray_along_z (1/1000) Infinity blank_record)))
              \<longrightarrow> snd (sphere_hit_spec s ray_along_z (1/1000) Infinity blank_record)
                    = snd (sphere_hit_spec s' ray_along_z (1/1000) Infinity blank_record)"
    by (simp add: far_hit far_matte_hit near_hit_whole)
  have c2: "side_interval_consistent rect_hit_spec ray_from_below (1/1000) Infinity
              (set (sides unit_box))"
    by (rule rect_hit_consistent)
  have p2: "mset (sides unit_box_reversed) = mset (sides unit_box)"
    by (simp add: unit_box_reversed_def)
  have t2: "\<forall>s\<in>set (sides unit_box). \<forall>s'\<in>set (sides unit_box).
              fst (rect_hit_spec s ray_from_below (1/1000) Infinity blank_record Lambertian) \<and>
              fst (rect_hit_spec s' ray_from_below (1/1000) Infinity blank_record Lambertian) \<and>
              hit_t (fst (snd (rect_hit_spec s ray_from_below (1/1000) Infinity blank_record Lambertian)))
                = hit_t (fst (snd (rect_hit_spec s' ray_from_below (1/1000) Infinity blank_record Lambertian))) \<and>
              (\<forall>s''\<in>set (sides unit_box).
                 fst (rect_hit_spec s'' ray_from_below (1/1000) Infinity blank_record Lambertian) \<longrightarrow>
                 hit_t (fst (snd (rect_hit_spec s ray_from_below (1/1000) Infinity blank_record Lambertian)))
                   \<le> hit_t (fst (snd (rect_hit_spec s'' ray_from_below (1/1000) Infinity blank_record Lambertian))))
              \<longrightarrow> snd (rect_hit_spec s ray_from_below (1/1000) Infinity blank_record Lambertian)
                    = snd (rect_hit_spec s' ray_from_below (1/1000) Infinity blank_record Lambertian)"
    unfolding unit_box_sides by (simp add: from_below_sides del: rect_hit_spec.simps)
  note inst_s = scan_permutation[where hit = sphere_hit_spec and r = ray_along_z
      and tmin = "1/1000" and tmax = Infinity
      and spheres = "[far_sphere, far_sphere_matte, near_sphere]"
      and spheres' = "[near_sphere, far_sphere_matte, far_sphere]" and temp_init = blank_record
      and rec = marked_record and tmp = blank_record]
  note e1 = inst_s[THEN conjunct1, THEN mp, OF conjI[OF c1 p1], THEN conjunct2,
      THEN conjunct2, THEN mp, OF t1]
  note inst_b = scan_permutation[where side_hit = rect_hit_spec and r = ray_from_below
      and tmin = "1/1000" and tmax = Infinity and b = unit_box and b' = unit_box_reversed
      and temp_init = blank_record and mat_init = Lambertian and rec = marked_record
      and mat = Lambertian and tmp = blank_record and m = Lambertian]
  note e2 = inst_b[THEN conjunct2, THEN mp, OF conjI[OF c2 p2], THEN conjunct2,
      THEN conjunct2, THEN mp, OF t2]
  show ?thesis
    by (intro conjI c1 p1 far_t far_rec e1 c2 p2 e2)
qed

section \<open>The box constructor\<close>

text \<open>
  Claim C9. For corners \<open>p0\<close>, \<open>p1\<close> with \<open>p0\<close> componentwise at most
  \<open>p1\<close>, the box constructor stores the two corners and the material and creates exactly
  six rectangles: two xy-rectangles at \<open>z = p0.z\<close> and \<open>z = p1.z\<close>, two xz-rectangles
  at \<open>y = p0.y\<close> and \<open>y = p1.y\<close>, two yz-rectangles at \<open>x = p0.x\<close> and
  \<open>x = p1.x\<close>, each over the extents of the two corners and each with the box's
  material. The points of the six faces are exactly the points of the volume between
  \<open>box_min\<close> and \<open>box_max\<close> that are not in its interior.
\<close>

theorem box_faces:
  assumes "vx p0 \<le> vx p1" "vy p0 \<le> vy p1" "vz p0 \<le> vz p1"
  shows "box_min (box p0 p1 mat) = p0 \<and> box_max (box p0 p1 mat) = p1 \<and>
         material_type (box p0 p1 mat) = mat \<and>
         length (sides (box p0 p1 mat)) = 6 \<and>
         mset (sides (box p0 p1 mat)) =
           {# xy_rect (vx p0) (vx p1) (vy p0) (vy p1) (vz p0) mat,
              xy_rect (vx p0) (vx p1) (vy p0) (vy p1) (vz p1) mat,
              xz_rect (vx p0) (vx p1) (vz p0) (vz p1) (vy p0) mat,
              xz_rect (vx p0) (vx p1) (vz p0) (vz p1) (vy p1) mat,
              yz_rect (vy p0) (vy p1) (vz p0) (vz p1) (vx p0) mat,
              yz_rect (vy p0) (vy p1) (vz p0) (vz p1) (vx p1) mat #} \<and>
         (\<forall>s\<in>set (sides (box p0 p1 mat)). rect_material s = mat) \<and>
         (\<forall>p. (\<exists>s\<in>set (sides (box p0 p1 mat)). on_rect s p)
                \<longleftrightarrow> in_volume (box_min (box p0 p1 mat)) (box_max (box p0 p1 mat)) p \<and>
                    \<not> strictly_inside (box_min (box p0 p1 mat))
                         (box_max (box p0 p1 mat)) p)"
proof -
  have faces: "(\<exists>s\<in>set (sides (box p0 p1 mat)). on_rect s p)
                \<longleftrightarrow> in_volume p0 p1 p \<and> \<not> strictly_inside p0 p1 p" for p
    using assms
    by (auto simp: box_def in_volume_def strictly_inside_def)
  show ?thesis
    using faces by (simp add: box_def)
qed

theorem box_faces_witness:
  "vx (Vec3 0 0 0) \<le> vx (Vec3 1 2 3) \<and> vy (Vec3 0 0 0) \<le> vy (Vec3 1 2 3) \<and>
   vz (Vec3 0 0 0) \<le> vz (Vec3 1 2 3) \<and>
   sides (box (Vec3 0 0 0) (Vec3 1 2 3) Metal) =
     [ xy_rect 0 1 0 2 3 Metal, xy_rect 0 1 0 2 0 Metal,
       xz_rect 0 1 0 3 2 Metal, xz_rect 0 1 0 3 0 Metal,
       yz_rect 0 2 0 3 1 Metal, yz_rect 0 2 0 3 0 Metal ] \<and>
   length (sides (box (Vec3 0 0 0) (Vec3 1 2 3) Metal)) = 6 \<and>
   (\<exists>s\<in>set (sides (box (Vec3 0 0 0) (Vec3 1 2 3) Metal)). on_rect s (Vec3 (1/2) 1 3)) \<and>
   \<not> (\<exists>s\<in>set (sides (box (Vec3 0 0 0) (Vec3 1 2 3) Metal)). on_rect s (Vec3 (1/2) 1 1))"
proof -
  have h: "vx (Vec3 0 0 0) \<le> vx (Vec3 1 2 3)" "vy (Vec3 0 0 0) \<le> vy (Vec3 1 2 3)"
    "vz (Vec3 0 0 0) \<le> vz (Vec3 1 2 3)" by simp_all
  note b = box_faces[OF h, of Metal]
  from b have len: "length (sides (box (Vec3 0 0 0) (Vec3 1 2 3) Metal)) = 6"
    by (elim conjE)
  from b have faces:
    "\<forall>p. (\<exists>s\<in>set (sides (box (Vec3 0 0 0) (Vec3 1 2 3) Metal)). on_rect s p)
          \<longleftrightarrow> in_volume (box_min (box (Vec3 0 0 0) (Vec3 1 2 3) Metal))
                (box_max (box (Vec3 0 0 0) (Vec3 1 2 3) Metal)) p \<and>
              \<not> strictly_inside (box_min (box (Vec3 0 0 0) (Vec3 1 2 3) Metal))
                (box_max (box (Vec3 0 0 0) (Vec3 1 2 3) Metal)) p"
    by (elim conjE)
  have corners: "box_min (box (Vec3 0 0 0) (Vec3 1 2 3) Metal) = Vec3 0 0 0"
    "box_max (box (Vec3 0 0 0) (Vec3 1 2 3) Metal) = Vec3 1 2 3"
    by (simp_all add: box_def)
  from faces[rule_format, of "Vec3 (1/2) 1 3"]
  have on: "\<exists>s\<in>set (sides (box (Vec3 0 0 0) (Vec3 1 2 3) Metal)). on_rect s (Vec3 (1/2) 1 3)"
    by (simp add: corners in_volume_def strictly_inside_def)
  from faces[rule_format, of "Vec3 (1/2) 1 1"]
  have off: "\<not> (\<exists>s\<in>set (sides (box (Vec3 0 0 0) (Vec3 1 2 3) Metal)).
                  on_rect s (Vec3 (1/2) 1 1))"
    by (simp add: corners in_volume_def strictly_inside_def)
  have sides: "sides (box (Vec3 0 0 0) (Vec3 1 2 3) Metal) =
     [ xy_rect 0 1 0 2 3 Metal, xy_rect 0 1 0 2 0 Metal,
       xz_rect 0 1 0 3 2 Metal, xz_rect 0 1 0 3 0 Metal,
       yz_rect 0 2 0 3 1 Metal, yz_rect 0 2 0 3 0 Metal ]"
    by (simp add: box_def)
  show ?thesis
    by (intro conjI h sides len on off)
qed

section \<open>The image encoder\<close>

lemma length_rows_of: "length (rows_of f width n) = n * width"
  by (induction n) simp_all

lemma nth_rows_of:
  "y < n \<Longrightarrow> x < width \<Longrightarrow> rows_of f width n ! ((n - 1 - y) * width + x) = f y x"
proof (induction n)
  case 0
  then show ?case by simp
next
  case (Suc n)
  show ?case
  proof (cases "y = n")
    case True
    with Suc.prems show ?thesis by (simp add: nth_append)
  next
    case False
    with Suc.prems have y: "y < n" by simp
    then have "(Suc n - 1 - y) * width + x = width + ((n - 1 - y) * width + x)"
      by (cases n) (simp_all add: Suc_diff_le)
    with Suc.IH[OF y Suc.prems(2)] show ?thesis
      by (simp add: nth_append)
  qed
qed

lemma those_map_Some:
  "(\<And>a. a \<in> set xs \<Longrightarrow> f a = Some (g a)) \<Longrightarrow> those (map f xs) = Some (map g xs)"
  by (induction xs) simp_all

lemma those_map_None:
  "a \<in> set xs \<Longrightarrow> f a = None \<Longrightarrow> those (map f xs) = None"
  by (induction xs) (auto split: option.splits)

lemma save_rows_Some:
  assumes "\<And>y x. y < n \<Longrightarrow> x < width \<Longrightarrow> save_pixel sycl_sqrt width fb_data y x = Some (f y x)"
  shows "save_rows sycl_sqrt width fb_data n = Some (rows_of f width n)"
  using assms
proof (induction n)
  case 0
  show ?case by simp
next
  case (Suc n)
  have row: "those (map (save_pixel sycl_sqrt width fb_data n) [0..<width])
               = Some (map (f n) [0..<width])"
    by (rule those_map_Some) (simp add: Suc.prems)
  have rest: "save_rows sycl_sqrt width fb_data n = Some (rows_of f width n)"
    by (rule Suc.IH) (simp add: Suc.prems)
  show ?case by (simp add: row rest)
qed

lemma save_rows_None:
  assumes "y < n" "x < width" "save_pixel sycl_sqrt width fb_data y x = None"
  shows "save_rows sycl_sqrt width fb_data n = None"
  using assms(1)
proof (induction n)
  case 0
  then show ?case by simp
next
  case (Suc n)
  show ?case
  proof (cases "y = n")
    case True
    from assms(2) have "x \<in> set [0..<width]" by simp
    from those_map_None[OF this, of "save_pixel sycl_sqrt width fb_data n"] assms(3) True
    show ?thesis by simp
  next
    case False
    with Suc.prems have "y < n" by simp
    from Suc.IH[OF this] show ?thesis by (simp split: option.splits)
  qed
qed

lemma channel_encode:
  "static_cast_int (256 * clamp v 0 (999 / 1000)) = \<lfloor>256 * max 0 (min (999 / 1000) v)\<rfloor>"
proof -
  have c: "clamp v 0 (999 / 1000) = max 0 (min (999 / 1000) v)"
    by (simp add: clamp_def max_def min_def)
  have "0 \<le> 256 * max 0 (min (999 / 1000) v)" by simp
  then show ?thesis
    by (simp add: static_cast_int_def c)
qed

lemma channel_range:
  "0 \<le> \<lfloor>256 * max 0 (min (999 / 1000) v)\<rfloor> \<and> \<lfloor>256 * max 0 (min (999 / 1000) v)\<rfloor> \<le> (255::int)"
proof -
  let ?v = "max 0 (min (999 / 1000) v)"
  have "0 \<le> ?v" "?v \<le> 999 / 1000" by simp_all
  then have "0 \<le> 256 * ?v" "256 * ?v < 256" by simp_all
  then have "0 \<le> \<lfloor>256 * ?v\<rfloor>" "\<lfloor>256 * ?v\<rfloor> < 256"
    by (simp_all add: floor_less_iff)
  then show ?thesis by simp
qed

text \<open>
  The upper bound of the clamp decides no integer as long as it lies from \<open>255 / 256\<close>
  up to \<open>1\<close>, excluded.
\<close>

lemma clamp_bound:
  assumes "255 / 256 \<le> hi" "hi < 1"
  shows "static_cast_int (256 * clamp v 0 hi) = static_cast_int (256 * clamp v 0 (999 / 1000))"
proof (cases "v < 255 / 256")
  case True
  with assms show ?thesis by (simp add: clamp_def)
next
  case False
  have top: "static_cast_int (256 * clamp v 0 b) = 255" if "255 / 256 \<le> b" "b < 1" for b
  proof -
    from False that have "255 / 256 \<le> clamp v 0 b" "clamp v 0 b < 1"
      by (simp_all add: clamp_def)
    then have "255 \<le> 256 * clamp v 0 b" "256 * clamp v 0 b < 256" by simp_all
    then have "\<lfloor>256 * clamp v 0 b\<rfloor> = 255" by linarith
    moreover from \<open>255 \<le> 256 * clamp v 0 b\<close> have "0 \<le> 256 * clamp v 0 b" by simp
    ultimately show ?thesis by (simp add: static_cast_int_def)
  qed
  from top[OF assms] top[of "999 / 1000"] show ?thesis by simp
qed

lemma save_pixel_encode:
  "save_pixel sycl_sqrt width fb_data y x
     = (case encode_channel sycl_sqrt (vx (fb_data ! (y * width + x))) of
          None \<Rightarrow> None
        | Some r \<Rightarrow>
        (case encode_channel sycl_sqrt (vy (fb_data ! (y * width + x))) of
          None \<Rightarrow> None
        | Some g \<Rightarrow>
        (case encode_channel sycl_sqrt (vz (fb_data ! (y * width + x))) of
          None \<Rightarrow> None
        | Some b \<Rightarrow> Some (r, g, b))))"
  by (simp add: save_pixel_def encode_channel_def channel_encode Let_def split: option.splits)

lemma pixel_in_buffer:
  assumes "x < width" "y < height" "length fb_data = width * height"
  shows "y * width + x < length fb_data"
proof -
  from assms(2) have "Suc y \<le> height" by simp
  then have "Suc y * width \<le> height * width" by (rule mult_le_mono1)
  with assms(1,3) show ?thesis by (simp add: mult.commute)
qed

text \<open>
  Claim C6. For a frame buffer that holds the \<open>width * height\<close> pixels, with no negative
  component, and a library square root that returns a number for every number that is not
  negative, \<^verbatim>\<open>save_image\<close> writes an image. The line it writes for the pixel \<open>(x, y)\<close>
  (rows from the top one down, so at position \<open>(height - 1 - y) * width + x\<close>) holds, for
  each of the three channels, the integer part of \<open>256 * clamp(sqrt(c), 0, 0.999)\<close> with
  \<open>c\<close> the component stored at index \<open>y * width + x\<close> and \<open>sqrt\<close> the library's:
  the square root first, then the clamp to \<open>[0, 0.999]\<close>, then the scaling and the
  truncation. One line is written for each pixel, and every value written is between 0 and
  255.
\<close>

theorem save_image_channels:
  assumes "x < width" "y < height" "length fb_data = width * height"
    and "no_negative_component fb_data"
    and "root_is_number sycl_sqrt"
  shows "\<exists>img r g b.
           save_image sycl_sqrt width height fb_data = Some img \<and>
           length (ppm_pixels img) = width * height \<and>
           y * width + x < length fb_data \<and>
           encode_channel sycl_sqrt (vx (fb_data ! (y * width + x))) = Some r \<and>
           encode_channel sycl_sqrt (vy (fb_data ! (y * width + x))) = Some g \<and>
           encode_channel sycl_sqrt (vz (fb_data ! (y * width + x))) = Some b \<and>
           ppm_pixels img ! ((height - 1 - y) * width + x) = (r, g, b) \<and>
           0 \<le> r \<and> r \<le> 255 \<and> 0 \<le> g \<and> g \<le> 255 \<and> 0 \<le> b \<and> b \<le> 255"
proof -
  let ?enc = "\<lambda>c. \<lfloor>256 * max 0 (min (999 / 1000) (the (sycl_sqrt c)))\<rfloor>"
  let ?f = "\<lambda>y x. (?enc (vx (fb_data ! (y * width + x))),
                      ?enc (vy (fb_data ! (y * width + x))),
                      ?enc (vz (fb_data ! (y * width + x))))"
  have enc: "encode_channel sycl_sqrt c = Some (?enc c)" if "0 \<le> c" for c
    using assms(5) that by (auto simp: root_is_number_def encode_channel_def split: option.splits)
  have comp: "0 \<le> vx (fb_data ! (y' * width + x')) \<and> 0 \<le> vy (fb_data ! (y' * width + x')) \<and>
              0 \<le> vz (fb_data ! (y' * width + x'))"
    if "y' < height" "x' < width" for y' x'
  proof -
    from pixel_in_buffer[OF that(2,1) assms(3)]
    have "fb_data ! (y' * width + x') \<in> set fb_data" by (rule nth_mem)
    with assms(4) show ?thesis unfolding no_negative_component_def by blast
  qed
  have pix: "save_pixel sycl_sqrt width fb_data y' x' = Some (?f y' x')"
    if "y' < height" "x' < width" for y' x'
    using comp[OF that] by (simp add: save_pixel_encode enc)
  have rows: "save_rows sycl_sqrt width fb_data height = Some (rows_of ?f width height)"
    by (rule save_rows_Some) (rule pix)
  let ?img = "\<lparr> ppm_magic = ''P3'', ppm_width = width, ppm_height = height, ppm_max = 255,
               ppm_pixels = rows_of ?f width height \<rparr>"
  have img: "save_image sycl_sqrt width height fb_data = Some ?img"
    by (simp add: save_image_def rows)
  have len: "length (ppm_pixels ?img) = width * height"
    by (simp add: length_rows_of mult.commute)
  have idx: "y * width + x < length fb_data"
    by (rule pixel_in_buffer[OF assms(1,2,3)])
  have at: "ppm_pixels ?img ! ((height - 1 - y) * width + x) = ?f y x"
    using nth_rows_of[OF assms(2,1), of ?f] by simp
  note c = comp[OF assms(2,1)]
  have rng: "0 \<le> ?enc c \<and> ?enc c \<le> 255" for c
    by (rule channel_range)
  show ?thesis
    apply (rule exI[of _ ?img])
    apply (rule exI[of _ "?enc (vx (fb_data ! (y * width + x)))"])
    apply (rule exI[of _ "?enc (vy (fb_data ! (y * width + x)))"])
    apply (rule exI[of _ "?enc (vz (fb_data ! (y * width + x)))"])
    using img len idx at c rng by (simp add: enc)
qed

lemma sqrt_sixteenth: "sqrt (1 / 16) = 1 / 4"
  by (rule real_sqrt_unique) (simp_all add: power2_eq_square)

lemma sqrt_quarter: "sqrt (1 / 4) = 1 / 2"
  by (rule real_sqrt_unique) (simp_all add: power2_eq_square)

lemma encode_channel_values:
  "encode_channel exact_sqrt 4 = Some 255" "encode_channel exact_sqrt (1 / 16) = Some 64"
  "encode_channel exact_sqrt 0 = Some 0" "encode_channel exact_sqrt (1 / 4) = Some 128"
  "encode_channel exact_sqrt 1 = Some 255"
  by (simp_all add: encode_channel_def exact_sqrt_def sqrt_sixteenth sqrt_quarter)

text \<open>
  A component whose square root is no number leaves the image without a value; a negative
  component does so.
\<close>

lemma save_image_nan:
  assumes "x < width" "y < height"
    and "sycl_sqrt (vx (fb_data ! (y * width + x))) = None \<or>
         sycl_sqrt (vy (fb_data ! (y * width + x))) = None \<or>
         sycl_sqrt (vz (fb_data ! (y * width + x))) = None"
  shows "save_image sycl_sqrt width height fb_data = None"
proof -
  from assms(3) have "save_pixel sycl_sqrt width fb_data y x = None"
    by (auto simp: save_pixel_def Let_def split: option.splits)
  from save_rows_None[OF assms(2,1) this] show ?thesis
    by (simp add: save_image_def)
qed

lemma save_image_negative:
  "save_image exact_sqrt 1 1 [Vec3 (- 1) (1 / 4) 0] = None"
  by (rule save_image_nan[of 0 _ 0]) (simp_all add: exact_sqrt_def)

theorem save_image_channels_witness:
  "(1::nat) < 2 \<and> (0::nat) < 2 \<and> length frame_of_four = 2 * 2 \<and>
   no_negative_component frame_of_four \<and> root_is_number exact_sqrt \<and>
   save_image exact_sqrt 2 2 frame_of_four
     = Some \<lparr> ppm_magic = ''P3'', ppm_width = 2, ppm_height = 2, ppm_max = 255,
              ppm_pixels = [(128, 128, 128), (255, 255, 255), (0, 128, 255), (255, 64, 0)] \<rparr> \<and>
   (\<exists>img. save_image exact_sqrt 2 2 frame_of_four = Some img \<and>
          ppm_pixels img ! ((2 - 1 - 0) * 2 + 1) = (255, 64, 0))"
proof -
  have h: "(1::nat) < 2" "(0::nat) < 2" "length frame_of_four = 2 * 2"
    by (simp_all add: frame_of_four_def)
  have pos: "no_negative_component frame_of_four"
    by (simp add: no_negative_component_def frame_of_four_def)
  have lib: "root_is_number exact_sqrt"
    by (simp add: root_is_number_def exact_sqrt_def)
  from save_image_channels[OF h pos lib]
  have one: "\<exists>img. save_image exact_sqrt 2 2 frame_of_four = Some img \<and>
          ppm_pixels img ! ((2 - 1 - 0) * 2 + 1) = (255, 64, 0)"
    by (auto simp: frame_of_four_def encode_channel_values)
  have "save_rows exact_sqrt 2 frame_of_four (Suc (Suc 0))
          = Some [(128, 128, 128), (255, 255, 255), (0, 128, 255), (255, 64, 0)]"
    by (simp add: save_pixel_encode frame_of_four_def encode_channel_values numeral_2_eq_2)
  then have all: "save_image exact_sqrt 2 2 frame_of_four
     = Some \<lparr> ppm_magic = ''P3'', ppm_width = 2, ppm_height = 2, ppm_max = 255,
              ppm_pixels = [(128, 128, 128), (255, 255, 255), (0, 128, 255), (255, 64, 0)] \<rparr>"
    by (simp add: save_image_def numeral_2_eq_2)
  show ?thesis
    by (intro conjI h pos lib all one)
qed

section \<open>The path integrator\<close>

lemma color_body_escape:
  assumes "nearest_hit E spheres cur_ray = None"
  shows "color_body E spheres (cur_ray, cur_attenuation, scattered, g)
           = Inl (cur_attenuation * background cur_ray, g)"
proof -
  obtain found rec where
    w: "hit_world (sphere_hit E) (default_hit_record E) cur_ray (1 / 1000) Infinity
          (default_hit_record E) spheres = (found, rec)"
    by (cases "hit_world (sphere_hit E) (default_hit_record E) cur_ray (1 / 1000) Infinity
          (default_hit_record E) spheres")
  with assms have "\<not> found" by (simp add: nearest_hit_def split: if_splits)
  with w show ?thesis
    by (simp add: color_body_def Let_def background_def)
qed

lemma color_body_hit:
  assumes "nearest_hit E spheres cur_ray = Some rec"
  shows "color_body E spheres (cur_ray, cur_attenuation, scattered, g)
           = (let ((ok, cur_attenuation', scattered'), g') =
                    scatter_material E rec cur_ray cur_attenuation scattered g
              in if ok then Inr (scattered', cur_attenuation', scattered', g')
                 else Inl (Vec3 0 0 0, g'))"
proof -
  obtain found rec' where
    w: "hit_world (sphere_hit E) (default_hit_record E) cur_ray (1 / 1000) Infinity
          (default_hit_record E) spheres = (found, rec')"
    by (cases "hit_world (sphere_hit E) (default_hit_record E) cur_ray (1 / 1000) Infinity
          (default_hit_record E) spheres")
  with assms have "found" "rec' = rec" by (simp_all add: nearest_hit_def split: if_splits)
  with w show ?thesis
    by (simp add: color_body_def Let_def split: prod.splits)
qed

lemma color_body_scattered:
  assumes "scatters_in_place (scatter_material E) scatter"
    and "nearest_hit E spheres cur_ray = Some rec"
    and "scatter rec cur_ray g = (Some (a, r_out), g')"
  shows "color_body E spheres (cur_ray, cur_attenuation, scattered, g)
           = Inr (r_out, cur_attenuation * a, r_out, g')"
proof -
  from assms(1)[unfolded scatters_in_place_def, rule_format, of rec cur_ray cur_attenuation scattered g]
       assms(3)
  have "scatter_material E rec cur_ray cur_attenuation scattered g
          = ((True, cur_attenuation * a, r_out), g')"
    by simp
  then show ?thesis by (simp add: color_body_hit[OF assms(2)])
qed







lemma color_run_exhausted:
  "color_run E spheres n st = Some st' \<Longrightarrow> color_loop E spheres n st = (Vec3 0 0 0, snd (snd (snd st')))"
  by (induction n arbitrary: st) (auto split: sum.splits)

lemma color_run_then_loop:
  "color_run E spheres k st = Some st' \<Longrightarrow> color_loop E spheres (k + n) st = color_loop E spheres n st'"
  by (induction k arbitrary: st) (auto split: sum.splits)

text \<open>
  Claim C3. For every camera ray and maximum bounce count, if all the iterations of the
  loop of \<^verbatim>\<open>color\<close> go on (each finds a hit and scatters), the result is exactly black,
  \<open>(0, 0, 0)\<close>, a value like any other.
\<close>

theorem color_exhausted_black:
  "color_run E spheres (nat max_depth) (r, Vec3 1 1 1, default_ray E, g)
       = Some (cur_ray, cur_attenuation, scattered, g')
     \<longrightarrow> color E r spheres max_depth g = (Vec3 0 0 0, g')"
  by (auto simp: color_def dest: color_run_exhausted)

lemma unit_vector_along_y:
  "0 < a \<Longrightarrow> unit_vector (Vec3 0 a 0) = Vec3 0 1 0"
  "a < 0 \<Longrightarrow> unit_vector (Vec3 0 a 0) = Vec3 0 (- 1) 0"
  by (simp_all add: unit_vector_def length_vec_def)

lemma background_along_y:
  "0 < a \<Longrightarrow> background \<lparr> origin = p, direction = Vec3 0 a 0 \<rparr> = Vec3 (1 / 2) (7 / 10) 1"
  "a < 0 \<Longrightarrow> background \<lparr> origin = p, direction = Vec3 0 a 0 \<rparr> = Vec3 1 1 1"
  by (simp_all add: background_def unit_vector_along_y)

lemma nearest_hit_none:
  "\<not> fst (hit_world (sphere_hit E) (default_hit_record E) r (1 / 1000) Infinity
            (default_hit_record E) spheres)
     \<Longrightarrow> nearest_hit E spheres r = None"
  by (cases "hit_world (sphere_hit E) (default_hit_record E) r (1 / 1000) Infinity
            (default_hit_record E) spheres") (simp add: nearest_hit_def)

lemma color_escape:
  assumes run: "color_run E spheres k (r, Vec3 1 1 1, default_ray E, g)
                  = Some (cur_ray, cur_attenuation, scattered, g')"
    and k: "int k < max_depth"
    and miss: "\<not> fst (hit_world (sphere_hit E) (default_hit_record E) cur_ray (1 / 1000) Infinity
                       (default_hit_record E) spheres)"
  shows "color E r spheres max_depth g = (cur_attenuation * background cur_ray, g')"
proof -
  from k obtain n where n: "nat max_depth = k + Suc n"
    by (metis add_Suc_right less_imp_Suc_add nat_int zless_nat_conj zless_nat_eq_int_zless)
  have "color_loop E spheres (Suc n) (cur_ray, cur_attenuation, scattered, g')
          = (cur_attenuation * background cur_ray, g')"
    by (simp add: color_body_escape[OF nearest_hit_none[OF miss]])
  with color_run_then_loop[OF run, of "Suc n"] n show ?thesis
    by (simp add: color_def)
qed

text \<open>
  Claim C4. When, after any number of bounces within the maximum, the scan of the current
  ray finds no hit, \<^verbatim>\<open>color\<close> returns the accumulated attenuation multiplied by the
  background of the current ray: \<open>(1 - h) * (1, 1, 1) + h * (0.5, 0.7, 1.0)\<close> with
  \<open>h = 0.5 * (d + 1)\<close> and \<open>d\<close> the y component of the normalized direction. A
  camera ray along \<open>+y\<close> that escapes yields \<open>(0.5, 0.7, 1.0)\<close>, and one along
  \<open>-y\<close> yields \<open>(1, 1, 1)\<close>.
\<close>

theorem color_escape_background:
  "(color_run E spheres k (r, Vec3 1 1 1, default_ray E, g)
        = Some (cur_ray, cur_attenuation, scattered, g') \<and>
    int k < max_depth \<and>
    \<not> fst (hit_world (sphere_hit E) (default_hit_record E) cur_ray (1 / 1000) Infinity
             (default_hit_record E) spheres)
    \<longrightarrow> color E r spheres max_depth g
          = (cur_attenuation *
               (scale (1 - (1 / 2) * (vy (unit_vector (direction cur_ray)) + 1)) (Vec3 1 1 1)
                + scale ((1 / 2) * (vy (unit_vector (direction cur_ray)) + 1))
                    (Vec3 (1 / 2) (7 / 10) 1)),
             g')) \<and>
   (0 < max_depth \<and> 0 < a \<and>
    \<not> fst (hit_world (sphere_hit E) (default_hit_record E) \<lparr> origin = p, direction = Vec3 0 a 0 \<rparr>
             (1 / 1000) Infinity (default_hit_record E) spheres)
    \<longrightarrow> color E \<lparr> origin = p, direction = Vec3 0 a 0 \<rparr> spheres max_depth g
          = (Vec3 (1 / 2) (7 / 10) 1, g)) \<and>
   (0 < max_depth \<and> a < 0 \<and>
    \<not> fst (hit_world (sphere_hit E) (default_hit_record E) \<lparr> origin = p, direction = Vec3 0 a 0 \<rparr>
             (1 / 1000) Infinity (default_hit_record E) spheres)
    \<longrightarrow> color E \<lparr> origin = p, direction = Vec3 0 a 0 \<rparr> spheres max_depth g
          = (Vec3 1 1 1, g))"
proof (intro conjI impI)
  assume "color_run E spheres k (r, Vec3 1 1 1, default_ray E, g)
        = Some (cur_ray, cur_attenuation, scattered, g') \<and>
    int k < max_depth \<and>
    \<not> fst (hit_world (sphere_hit E) (default_hit_record E) cur_ray (1 / 1000) Infinity
             (default_hit_record E) spheres)"
  then have run: "color_run E spheres k (r, Vec3 1 1 1, default_ray E, g)
        = Some (cur_ray, cur_attenuation, scattered, g')"
    and k: "int k < max_depth"
    and miss: "\<not> fst (hit_world (sphere_hit E) (default_hit_record E) cur_ray (1 / 1000) Infinity
             (default_hit_record E) spheres)"
    by simp_all
  have bg: "background cur_ray
      = scale (1 - (1 / 2) * (vy (unit_vector (direction cur_ray)) + 1)) (Vec3 1 1 1)
        + scale ((1 / 2) * (vy (unit_vector (direction cur_ray)) + 1)) (Vec3 (1 / 2) (7 / 10) 1)"
    by (simp only: background_def Let_def)
  have "color E r spheres max_depth g = (cur_attenuation * background cur_ray, g')"
    by (rule color_escape[OF run k miss])
  then show "color E r spheres max_depth g
          = (cur_attenuation *
               (scale (1 - (1 / 2) * (vy (unit_vector (direction cur_ray)) + 1)) (Vec3 1 1 1)
                + scale ((1 / 2) * (vy (unit_vector (direction cur_ray)) + 1))
                    (Vec3 (1 / 2) (7 / 10) 1)),
             g')"
    by (simp only: bg)
next
  let ?r = "\<lparr> origin = p, direction = Vec3 0 a 0 \<rparr>"
  assume a: "0 < max_depth \<and> 0 < a \<and>
    \<not> fst (hit_world (sphere_hit E) (default_hit_record E) ?r
             (1 / 1000) Infinity (default_hit_record E) spheres)"
  have "color_run E spheres 0 (?r, Vec3 1 1 1, default_ray E, g)
          = Some (?r, Vec3 1 1 1, default_ray E, g)" by simp
  from color_escape[OF this] a
  have "color E ?r spheres max_depth g = (Vec3 1 1 1 * background ?r, g)" by simp
  with a show "color E ?r spheres max_depth g = (Vec3 (1 / 2) (7 / 10) 1, g)"
    by (simp add: background_along_y)
next
  let ?r = "\<lparr> origin = p, direction = Vec3 0 a 0 \<rparr>"
  assume a: "0 < max_depth \<and> a < 0 \<and>
    \<not> fst (hit_world (sphere_hit E) (default_hit_record E) ?r
             (1 / 1000) Infinity (default_hit_record E) spheres)"
  have "color_run E spheres 0 (?r, Vec3 1 1 1, default_ray E, g)
          = Some (?r, Vec3 1 1 1, default_ray E, g)" by simp
  from color_escape[OF this] a
  have "color E ?r spheres max_depth g = (Vec3 1 1 1 * background ?r, g)" by simp
  with a show "color E ?r spheres max_depth g = (Vec3 1 1 1, g)"
    by (simp add: background_along_y)
qed

lemma scatter_in_place_contract: "scatters_in_place (scatter_in_place scatter) scatter"
  by (auto simp: scatters_in_place_def scatter_in_place_def split: prod.splits option.splits)

lemma mirror_kernel_contract:
  "scatters_in_place (scatter_material (mirror_kernel albedo)) (mirror_scatter albedo)"
  by (simp add: mirror_kernel_def scatter_in_place_contract)

lemma near_sphere_hits:
  "sphere_hit_spec near_sphere ray_along_z (1 / 1000) Infinity rec = (True, near_record)"
  "sphere_hit_spec near_sphere ray_back (1 / 1000) c rec = (False, rec)"
  "sphere_hit_spec near_sphere ray_up (1 / 1000) c rec = (False, rec)"
  "sphere_hit_spec near_sphere ray_down (1 / 1000) c rec = (False, rec)"
  by (simp_all add: sphere_hit_spec_def near_sphere_def ray_along_z_def ray_back_def ray_up_def
        ray_down_def near_record_def sphere_record_def ray_at_def Let_def)

lemma sphere_behind_hits:
  "sphere_hit_spec sphere_behind ray_along_z (1 / 1000) c rec = (False, rec)"
  "sphere_hit_spec sphere_behind ray_back (1 / 1000) Infinity rec = (True, behind_record)"
  by (simp_all add: sphere_hit_spec_def sphere_behind_def ray_along_z_def ray_back_def
        behind_record_def sphere_record_def ray_at_def Let_def)

lemma one_mirror_scans:
  "hit_world sphere_hit_spec blank_record ray_along_z (1 / 1000) Infinity blank_record [near_sphere]
     = (True, near_record)"
  "hit_world sphere_hit_spec blank_record ray_back (1 / 1000) Infinity blank_record [near_sphere]
     = (False, blank_record)"
  "hit_world sphere_hit_spec blank_record ray_up (1 / 1000) Infinity blank_record [near_sphere]
     = (False, blank_record)"
  "hit_world sphere_hit_spec blank_record ray_down (1 / 1000) Infinity blank_record [near_sphere]
     = (False, blank_record)"
  by (simp_all add: hit_world_def near_sphere_hits)

lemma two_mirror_scans:
  "hit_world sphere_hit_spec blank_record ray_along_z (1 / 1000) Infinity blank_record
     [near_sphere, sphere_behind] = (True, near_record)"
  "hit_world sphere_hit_spec blank_record ray_back (1 / 1000) Infinity blank_record
     [near_sphere, sphere_behind] = (True, behind_record)"
  by (simp_all add: hit_world_def near_sphere_hits sphere_behind_hits)

lemma mirror_bounces:
  "mirror_scatter albedo near_record ray_along_z g = (Some (albedo, ray_back), g)"
  "mirror_scatter albedo behind_record ray_back g = (Some (albedo, ray_forth), g)"
  by (simp_all add: mirror_scatter_def reflect_def near_record_def behind_record_def
        ray_along_z_def ray_back_def ray_forth_def Let_def)

lemma background_ray_back: "background ray_back = Vec3 (3 / 4) (17 / 20) 1"
  by (simp add: background_def ray_back_def unit_vector_def length_vec_def Let_def)


lemma one_mirror_nearest:
  "nearest_hit (mirror_kernel albedo) [near_sphere] ray_along_z = Some near_record"
  "nearest_hit (mirror_kernel albedo) [near_sphere] ray_back = None"
  by (simp_all add: nearest_hit_def mirror_kernel_def one_mirror_scans)

lemma two_mirror_nearest:
  "nearest_hit (mirror_kernel albedo) [near_sphere, sphere_behind] ray_along_z = Some near_record"
  "nearest_hit (mirror_kernel albedo) [near_sphere, sphere_behind] ray_back = Some behind_record"
  by (simp_all add: nearest_hit_def mirror_kernel_def two_mirror_scans)














lemma two_mirror_run:
  "color_run (mirror_kernel half_grey) [near_sphere, sphere_behind] (Suc (Suc 0))
       (ray_along_z, Vec3 1 1 1, default_ray (mirror_kernel half_grey), g)
     = Some (ray_forth, Vec3 (1 / 4) (1 / 4) (1 / 4), ray_forth, g)"
  by (simp add: color_body_scattered[OF mirror_kernel_contract] two_mirror_nearest
        mirror_bounces half_grey_def)

theorem color_exhausted_black_witness:
  "color_run (mirror_kernel half_grey) [near_sphere, sphere_behind] (nat 2)
       (ray_along_z, Vec3 1 1 1, default_ray (mirror_kernel half_grey), 0::nat)
     = Some (ray_forth, Vec3 (1 / 4) (1 / 4) (1 / 4), ray_forth, 0) \<and>
   color (mirror_kernel half_grey) ray_along_z [near_sphere, sphere_behind] 2 (0::nat)
     = (Vec3 0 0 0, 0)"
proof -
  have two: "nat 2 = Suc (Suc 0)" by simp
  have run: "color_run (mirror_kernel half_grey) [near_sphere, sphere_behind] (nat 2)
       (ray_along_z, Vec3 1 1 1, default_ray (mirror_kernel half_grey), 0::nat)
     = Some (ray_forth, Vec3 (1 / 4) (1 / 4) (1 / 4), ray_forth, 0)"
    unfolding two by (rule two_mirror_run)
  note black = color_exhausted_black[THEN mp, OF run]
  show ?thesis
    by (intro conjI run black)
qed

lemma one_mirror_run:
  "color_run (mirror_kernel half_grey) [near_sphere] (Suc 0)
       (ray_along_z, Vec3 1 1 1, default_ray (mirror_kernel half_grey), g)
     = Some (ray_back, half_grey, ray_back, g)"
  by (simp add: color_body_scattered[OF mirror_kernel_contract] one_mirror_nearest
        mirror_bounces half_grey_def)

theorem color_escape_background_witness:
  "color_run (mirror_kernel half_grey) [near_sphere] 1
       (ray_along_z, Vec3 1 1 1, default_ray (mirror_kernel half_grey), 0::nat)
     = Some (ray_back, half_grey, ray_back, 0) \<and>
   int 1 < 5 \<and>
   \<not> fst (hit_world (sphere_hit (mirror_kernel half_grey))
            (default_hit_record (mirror_kernel half_grey)) ray_back (1 / 1000) Infinity
            (default_hit_record (mirror_kernel half_grey)) [near_sphere]) \<and>
   color (mirror_kernel half_grey) ray_along_z [near_sphere] 5 (0::nat)
     = (Vec3 (3 / 8) (17 / 40) (1 / 2), 0) \<and>
   \<not> fst (hit_world (sphere_hit (mirror_kernel half_grey))
            (default_hit_record (mirror_kernel half_grey))
            \<lparr> origin = Vec3 0 0 0, direction = Vec3 0 3 0 \<rparr> (1 / 1000) Infinity
            (default_hit_record (mirror_kernel half_grey)) [near_sphere]) \<and>
   color (mirror_kernel half_grey) \<lparr> origin = Vec3 0 0 0, direction = Vec3 0 3 0 \<rparr>
       [near_sphere] 5 (0::nat)
     = (Vec3 (1 / 2) (7 / 10) 1, 0) \<and>
   \<not> fst (hit_world (sphere_hit (mirror_kernel half_grey))
            (default_hit_record (mirror_kernel half_grey))
            \<lparr> origin = Vec3 0 0 0, direction = Vec3 0 (- 2) 0 \<rparr> (1 / 1000) Infinity
            (default_hit_record (mirror_kernel half_grey)) [near_sphere]) \<and>
   color (mirror_kernel half_grey) \<lparr> origin = Vec3 0 0 0, direction = Vec3 0 (- 2) 0 \<rparr>
       [near_sphere] 5 (0::nat)
     = (Vec3 1 1 1, 0)"
proof -
  let ?K = "mirror_kernel half_grey :: (sphere, nat) externals"
  have run: "color_run ?K [near_sphere] 1 (ray_along_z, Vec3 1 1 1, default_ray ?K, 0::nat)
     = Some (ray_back, half_grey, ray_back, 0)"
    using one_mirror_run[of 0] by simp
  have k: "int 1 < 5" by simp
  have m1: "\<not> fst (hit_world (sphere_hit ?K) (default_hit_record ?K) ray_back (1 / 1000) Infinity
            (default_hit_record ?K) [near_sphere])"
    by (simp add: mirror_kernel_def one_mirror_scans)
  have m2: "\<not> fst (hit_world (sphere_hit ?K) (default_hit_record ?K)
            \<lparr> origin = Vec3 0 0 0, direction = Vec3 0 3 0 \<rparr> (1 / 1000) Infinity
            (default_hit_record ?K) [near_sphere])"
    using one_mirror_scans(3) by (simp add: mirror_kernel_def ray_up_def)
  have m3: "\<not> fst (hit_world (sphere_hit ?K) (default_hit_record ?K)
            \<lparr> origin = Vec3 0 0 0, direction = Vec3 0 (- 2) 0 \<rparr> (1 / 1000) Infinity
            (default_hit_record ?K) [near_sphere])"
    using one_mirror_scans(4) by (simp add: mirror_kernel_def ray_down_def)
  note inst = color_escape_background[where E = ?K and spheres = "[near_sphere]"
      and max_depth = 5 and g = "0::nat" and p = "Vec3 0 0 0"]
  from inst[where k = 1 and r = ray_along_z and cur_ray = ray_back
      and cur_attenuation = half_grey and scattered = ray_back and g' = 0, THEN conjunct1,
      THEN mp, OF conjI[OF run conjI[OF k m1]]]
  have e1: "color ?K ray_along_z [near_sphere] 5 (0::nat) = (Vec3 (3 / 8) (17 / 40) (1 / 2), 0)"
    by (simp add: half_grey_def ray_back_def unit_vector_def length_vec_def)
  have pos: "(0::int) < 5" "(0::real) < 3" "(- 2::real) < 0" by simp_all
  note e2 = inst[where a = 3, THEN conjunct2, THEN conjunct1, THEN mp,
      OF conjI[OF pos(1) conjI[OF pos(2) m2]]]
  note e3 = inst[where a = "- 2", THEN conjunct2, THEN conjunct2, THEN mp,
      OF conjI[OF pos(1) conjI[OF pos(3) m3]]]
  show ?thesis
    by (intro conjI run k m1 e1 m2 e2 m3 e3)
qed

section \<open>The pixel task\<close>

lemma vec3_add_assoc: "(a + b) + c = a + (b + c)" for a b c :: vec3
  by (cases a; cases b; cases c) simp

lemma vec3_add_zero: "Vec3 0 0 0 + a = a" "a + Vec3 0 0 0 = a"
  by (cases a; simp)+

text \<open>One sample, with every intermediate result named.\<close>

lemma pixel_samples_step:
  assumes "random_double E g = (jx, g1)" "random_double E g1 = (jy, g2)"
    "get_ray E ((real x + jx) / real width) ((real y + jy) / real height) g2 = (r, g3)"
    "color E r spheres (int depth) g3 = (c, g4)"
  shows "pixel_samples E width height depth spheres x y (Suc n) g
           = (\<lparr> jitter_x = jx, jitter_y = jy,
                 sample_u = (real x + jx) / real width, sample_v = (real y + jy) / real height,
                 sample_color = c \<rparr> # fst (pixel_samples E width height depth spheres x y n g4),
              snd (pixel_samples E width height depth spheres x y n g4))"
    and "sample_loop E width height depth spheres x y (Suc n) acc g
           = sample_loop E width height depth spheres x y n (acc + c) g4"
  using assms by (simp_all add: Let_def split: prod.splits)

lemma sample_loop_samples:
  "sample_loop E width height depth spheres x y n acc g
     = (acc + sum_vec (map sample_color (fst (pixel_samples E width height depth spheres x y n g))),
        snd (pixel_samples E width height depth spheres x y n g))"
proof (induction n arbitrary: acc g)
  case 0
  show ?case by (simp add: vec3_add_zero)
next
  case (Suc n)
  obtain jx g1 where a: "random_double E g = (jx, g1)" by (cases "random_double E g")
  obtain jy g2 where b: "random_double E g1 = (jy, g2)" by (cases "random_double E g1")
  obtain r g3 where c: "get_ray E ((real x + jx) / real width) ((real y + jy) / real height) g2
      = (r, g3)"
    by (cases "get_ray E ((real x + jx) / real width) ((real y + jy) / real height) g2")
  obtain col g4 where d: "color E r spheres (int depth) g3 = (col, g4)"
    by (cases "color E r spheres (int depth) g3")
  show ?case
    unfolding pixel_samples_step[OF a b c d] by (simp add: Suc.IH vec3_add_assoc)
qed

lemma length_pixel_samples:
  "length (fst (pixel_samples E width height depth spheres x y n g)) = n"
proof (induction n arbitrary: g)
  case 0
  show ?case by simp
next
  case (Suc n)
  obtain jx g1 where a: "random_double E g = (jx, g1)" by (cases "random_double E g")
  obtain jy g2 where b: "random_double E g1 = (jy, g2)" by (cases "random_double E g1")
  obtain r g3 where c: "get_ray E ((real x + jx) / real width) ((real y + jy) / real height) g2
      = (r, g3)"
    by (cases "get_ray E ((real x + jx) / real width) ((real y + jy) / real height) g2")
  obtain col g4 where d: "color E r spheres (int depth) g3 = (col, g4)"
    by (cases "color E r spheres (int depth) g3")
  show ?case
    unfolding pixel_samples_step(1)[OF a b c d] by (simp add: Suc.IH)
qed

lemma pixel_samples_jitter:
  assumes "\<forall>g. 0 \<le> fst (random_double E g) \<and> fst (random_double E g) < 1"
  shows "\<forall>s \<in> set (fst (pixel_samples E width height depth spheres x y n g)).
           0 \<le> jitter_x s \<and> jitter_x s < 1 \<and> 0 \<le> jitter_y s \<and> jitter_y s < 1"
proof (induction n arbitrary: g)
  case 0
  show ?case by simp
next
  case (Suc n)
  obtain jx g1 where a: "random_double E g = (jx, g1)" by (cases "random_double E g")
  obtain jy g2 where b: "random_double E g1 = (jy, g2)" by (cases "random_double E g1")
  obtain r g3 where c: "get_ray E ((real x + jx) / real width) ((real y + jy) / real height) g2
      = (r, g3)"
    by (cases "get_ray E ((real x + jx) / real width) ((real y + jy) / real height) g2")
  obtain col g4 where d: "color E r spheres (int depth) g3 = (col, g4)"
    by (cases "color E r spheres (int depth) g3")
  from assms[rule_format, of g] a have jx: "0 \<le> jx \<and> jx < 1" by simp
  from assms[rule_format, of g1] b have jy: "0 \<le> jy \<and> jy < 1" by simp
  show ?case
    unfolding pixel_samples_step(1)[OF a b c d] using jx jy Suc.IH by simp
qed

lemma pixel_samples_uv:
  "\<forall>s \<in> set (fst (pixel_samples E width height depth spheres x y n g)).
     sample_u s = (real x + jitter_x s) / real width \<and>
     sample_v s = (real y + jitter_y s) / real height"
proof (induction n arbitrary: g)
  case 0
  show ?case by simp
next
  case (Suc n)
  obtain jx g1 where a: "random_double E g = (jx, g1)" by (cases "random_double E g")
  obtain jy g2 where b: "random_double E g1 = (jy, g2)" by (cases "random_double E g1")
  obtain r g3 where c: "get_ray E ((real x + jx) / real width) ((real y + jy) / real height) g2
      = (r, g3)"
    by (cases "get_ray E ((real x + jx) / real width) ((real y + jy) / real height) g2")
  obtain col g4 where d: "color E r spheres (int depth) g3 = (col, g4)"
    by (cases "color E r spheres (int depth) g3")
  show ?case
    unfolding pixel_samples_step(1)[OF a b c d] using Suc.IH by simp
qed

lemma pixel_index_in_range:
  assumes "x < width" "y < height"
  shows "y * width + x < width * (height::nat)"
proof -
  from assms(2) have "Suc y \<le> height" by simp
  then have "Suc y * width \<le> height * width" by (rule mult_le_mono1)
  with assms(1) show ?thesis by (simp add: mult.commute)
qed


text \<open>
  Claim C5. For the pixel \<open>(x, y)\<close> of a frame buffer of \<open>width * height\<close> cells and
  a sample count \<open>S\<close> that is not zero (the code divides by it), the pixel task takes
  exactly \<open>S\<close> samples, one after the other. Each draws two offsets
  from \<^verbatim>\<open>random_double\<close>, one per axis (in \<open>[0, 1)\<close> when the generator's draws are),
  maps them to \<open>u = (x + jitter) / width\<close> and \<open>v = (y + jitter) / height\<close>,
  generates the camera ray through them and integrates it. The sum of the \<open>S\<close>
  colours, divided by \<open>S\<close>, is written to the cell \<open>y * width + x\<close>, which is within
  the buffer; no other cell changes.
\<close>

theorem pixel_task:
  "x < width \<and> y < height \<and> length frame = width * height \<and> 0 < S \<longrightarrow>
     length (fst (pixel_samples E width height depth spheres x y S g)) = S \<and>
     (\<forall>s \<in> set (fst (pixel_samples E width height depth spheres x y S g)).
        sample_u s = (real x + jitter_x s) / real width \<and>
        sample_v s = (real y + jitter_y s) / real height) \<and>
     ((\<forall>g. 0 \<le> fst (random_double E g) \<and> fst (random_double E g) < 1) \<longrightarrow>
        (\<forall>s \<in> set (fst (pixel_samples E width height depth spheres x y S g)).
           0 \<le> jitter_x s \<and> jitter_x s < 1 \<and> 0 \<le> jitter_y s \<and> jitter_y s < 1)) \<and>
     render_pixel E width height S depth spheres x y frame g
       = (frame[y * width + x :=
            divide_by
              (sum_vec (map sample_color (fst (pixel_samples E width height depth spheres x y S g))))
              (real S)],
          snd (pixel_samples E width height depth spheres x y S g)) \<and>
     y * width + x < length frame \<and>
     fst (render_pixel E width height S depth spheres x y frame g) ! (y * width + x)
       = divide_by
           (sum_vec (map sample_color (fst (pixel_samples E width height depth spheres x y S g))))
           (real S) \<and>
     length (fst (render_pixel E width height S depth spheres x y frame g)) = length frame \<and>
     (\<forall>i < length frame. i \<noteq> y * width + x \<longrightarrow>
        fst (render_pixel E width height S depth spheres x y frame g) ! i = frame ! i)"
proof (intro impI)
  assume a: "x < width \<and> y < height \<and> length frame = width * height \<and> 0 < S"
  then have idx: "y * width + x < length frame"
    using pixel_index_in_range[of x width y height] by simp
  have run: "render_pixel E width height S depth spheres x y frame g
       = (frame[y * width + x :=
            divide_by
              (sum_vec (map sample_color (fst (pixel_samples E width height depth spheres x y S g))))
              (real S)],
          snd (pixel_samples E width height depth spheres x y S g))"
    by (simp add: render_pixel_def sample_loop_samples vec3_add_zero Let_def)
  show "length (fst (pixel_samples E width height depth spheres x y S g)) = S \<and>
     (\<forall>s \<in> set (fst (pixel_samples E width height depth spheres x y S g)).
        sample_u s = (real x + jitter_x s) / real width \<and>
        sample_v s = (real y + jitter_y s) / real height) \<and>
     ((\<forall>g. 0 \<le> fst (random_double E g) \<and> fst (random_double E g) < 1) \<longrightarrow>
        (\<forall>s \<in> set (fst (pixel_samples E width height depth spheres x y S g)).
           0 \<le> jitter_x s \<and> jitter_x s < 1 \<and> 0 \<le> jitter_y s \<and> jitter_y s < 1)) \<and>
     render_pixel E width height S depth spheres x y frame g
       = (frame[y * width + x :=
            divide_by
              (sum_vec (map sample_color (fst (pixel_samples E width height depth spheres x y S g))))
              (real S)],
          snd (pixel_samples E width height depth spheres x y S g)) \<and>
     y * width + x < length frame \<and>
     fst (render_pixel E width height S depth spheres x y frame g) ! (y * width + x)
       = divide_by
           (sum_vec (map sample_color (fst (pixel_samples E width height depth spheres x y S g))))
           (real S) \<and>
     length (fst (render_pixel E width height S depth spheres x y frame g)) = length frame \<and>
     (\<forall>i < length frame. i \<noteq> y * width + x \<longrightarrow>
        fst (render_pixel E width height S depth spheres x y frame g) ! i = frame ! i)"
  proof (intro conjI)
    show "length (fst (pixel_samples E width height depth spheres x y S g)) = S"
      by (rule length_pixel_samples)
    show "\<forall>s \<in> set (fst (pixel_samples E width height depth spheres x y S g)).
        sample_u s = (real x + jitter_x s) / real width \<and>
        sample_v s = (real y + jitter_y s) / real height"
      by (rule pixel_samples_uv)
    show "(\<forall>g. 0 \<le> fst (random_double E g) \<and> fst (random_double E g) < 1) \<longrightarrow>
        (\<forall>s \<in> set (fst (pixel_samples E width height depth spheres x y S g)).
           0 \<le> jitter_x s \<and> jitter_x s < 1 \<and> 0 \<le> jitter_y s \<and> jitter_y s < 1)"
      by (intro impI pixel_samples_jitter)
    show "render_pixel E width height S depth spheres x y frame g
       = (frame[y * width + x :=
            divide_by
              (sum_vec (map sample_color (fst (pixel_samples E width height depth spheres x y S g))))
              (real S)],
          snd (pixel_samples E width height depth spheres x y S g))"
      by (rule run)
    show "y * width + x < length frame" by (rule idx)
    show "fst (render_pixel E width height S depth spheres x y frame g) ! (y * width + x)
       = divide_by
           (sum_vec (map sample_color (fst (pixel_samples E width height depth spheres x y S g))))
           (real S)"
      using idx by (simp add: run)
    show "length (fst (render_pixel E width height S depth spheres x y frame g)) = length frame"
      by (simp add: run)
    show "\<forall>i < length frame. i \<noteq> y * width + x \<longrightarrow>
        fst (render_pixel E width height S depth spheres x y frame g) ! i = frame ! i"
      by (simp add: run)
  qed
qed


lemma get_ray_generator: "snd (get_ray E s t g) = snd (random_in_unit_disk E g)"
  by (simp add: get_ray_def Let_def split: prod.splits)

lemma scale_zero: "scale 0 v = Vec3 0 0 0"
  by (cases v) simp

lemma get_ray_centre:
  "random_in_unit_disk E g = (Vec3 0 0 0, g') \<Longrightarrow> origin (fst (get_ray E s t g)) = Vec3 13 2 3"
  by (simp add: get_ray_def Let_def scale_zero)

lemma lamp_color:
  assumes "origin r = Vec3 13 2 3"
  shows "color lamp_kernel r [()] (int (Suc (Suc d))) g
           = (Vec3 (real g / 20) (7 * real g / 100) (real g / 10), g)"
proof -
  have first: "color_body lamp_kernel [()] (r, Vec3 1 1 1, ray_along_z, g)
                 = Inr (ray_up, Vec3 (real g / 10) (real g / 10) (real g / 10), ray_up, g)"
    using assms by (simp add: color_body_def lamp_kernel_def hit_world_def)
  have second: "color_body lamp_kernel [()]
                   (ray_up, Vec3 (real g / 10) (real g / 10) (real g / 10), ray_up, g)
                 = Inl (Vec3 (real g / 20) (7 * real g / 100) (real g / 10), g)"
    by (simp add: color_body_def lamp_kernel_def hit_world_def ray_up_def unit_vector_def
                  length_vec_def)
  have "color lamp_kernel r [()] (int (Suc (Suc d))) g
          = color_loop lamp_kernel [()] (Suc (Suc d)) (r, Vec3 1 1 1, ray_along_z, g)"
    unfolding color_def nat_int by (simp add: lamp_kernel_def)
  then show ?thesis
    by (simp add: first second)
qed

lemma lamp_sample:
  "pixel_samples lamp_kernel width height (Suc (Suc d)) [()] x y (Suc n) g
     = (\<lparr> jitter_x = real (g mod 4) / 4, jitter_y = real (Suc g mod 4) / 4,
           sample_u = (real x + real (g mod 4) / 4) / real width,
           sample_v = (real y + real (Suc g mod 4) / 4) / real height,
           sample_color = Vec3 (real (g + 3) / 20) (7 * real (g + 3) / 100) (real (g + 3) / 10) \<rparr>
          # fst (pixel_samples lamp_kernel width height (Suc (Suc d)) [()] x y n (g + 3)),
        snd (pixel_samples lamp_kernel width height (Suc (Suc d)) [()] x y n (g + 3)))"
proof -
  let ?u = "(real x + real (g mod 4) / 4) / real width"
  let ?v = "(real y + real (Suc g mod 4) / 4) / real height"
  have a: "random_double lamp_kernel g = (real (g mod 4) / 4, Suc g)"
    by (simp add: lamp_kernel_def)
  have b: "random_double lamp_kernel (Suc g) = (real (Suc g mod 4) / 4, Suc (Suc g))"
    by (simp add: lamp_kernel_def)
  have disk: "random_in_unit_disk lamp_kernel (Suc (Suc g)) = (Vec3 0 0 0, g + 3)"
    by (simp add: lamp_kernel_def)
  obtain r g3 where c: "get_ray lamp_kernel ?u ?v (Suc (Suc g)) = (r, g3)"
    by (cases "get_ray lamp_kernel ?u ?v (Suc (Suc g))")
  from get_ray_generator[of lamp_kernel ?u ?v "Suc (Suc g)"] c disk
  have g3: "g3 = g + 3" by simp
  from get_ray_centre[OF disk, of ?u ?v] c
  have "origin r = Vec3 13 2 3" by simp
  then have e: "color lamp_kernel r [()] (int (Suc (Suc d))) g3
      = (Vec3 (real (g + 3) / 20) (7 * real (g + 3) / 100) (real (g + 3) / 10), g + 3)"
    unfolding g3 by (rule lamp_color)
  show ?thesis
    unfolding pixel_samples_step(1)[OF a b c e] by simp
qed

lemma lamp_samples:
  "pixel_samples lamp_kernel 2 2 5 [()] 1 0 3 0
     = ([ \<lparr> jitter_x = 0, jitter_y = 1 / 4, sample_u = 1 / 2, sample_v = 1 / 8,
              sample_color = Vec3 (3 / 20) (21 / 100) (3 / 10) \<rparr>,
          \<lparr> jitter_x = 3 / 4, jitter_y = 0, sample_u = 7 / 8, sample_v = 0,
              sample_color = Vec3 (3 / 10) (21 / 50) (3 / 5) \<rparr>,
          \<lparr> jitter_x = 1 / 2, jitter_y = 3 / 4, sample_u = 3 / 4, sample_v = 3 / 8,
              sample_color = Vec3 (9 / 20) (63 / 100) (9 / 10) \<rparr> ], 9)"
proof -
  have five: "(5::nat) = Suc (Suc 3)" and three: "(3::nat) = Suc (Suc (Suc 0))" by simp_all
  have "pixel_samples lamp_kernel 2 2 (Suc (Suc 3)) [()] 1 0 (Suc (Suc (Suc 0))) 0
     = ([ \<lparr> jitter_x = 0, jitter_y = 1 / 4, sample_u = 1 / 2, sample_v = 1 / 8,
              sample_color = Vec3 (3 / 20) (21 / 100) (3 / 10) \<rparr>,
          \<lparr> jitter_x = 3 / 4, jitter_y = 0, sample_u = 7 / 8, sample_v = 0,
              sample_color = Vec3 (3 / 10) (21 / 50) (3 / 5) \<rparr>,
          \<lparr> jitter_x = 1 / 2, jitter_y = 3 / 4, sample_u = 3 / 4, sample_v = 3 / 8,
              sample_color = Vec3 (9 / 20) (63 / 100) (9 / 10) \<rparr> ], 9)"
    unfolding lamp_sample by (simp add: mod_Suc)
  then show ?thesis
    unfolding five[symmetric] three[symmetric] .
qed

theorem pixel_task_witness:
  "(1::nat) < 2 \<and> (0::nat) < 2 \<and> length frame_of_four = 2 * 2 \<and> (0::nat) < 3 \<and>
   (\<forall>g::nat. 0 \<le> fst (random_double lamp_kernel g) \<and> fst (random_double lamp_kernel g) < 1) \<and>
   length (fst (pixel_samples lamp_kernel 2 2 5 [()] 1 0 3 0)) = 3 \<and>
   map jitter_x (fst (pixel_samples lamp_kernel 2 2 5 [()] 1 0 3 0)) = [0, 3 / 4, 1 / 2] \<and>
   map jitter_y (fst (pixel_samples lamp_kernel 2 2 5 [()] 1 0 3 0)) = [1 / 4, 0, 3 / 4] \<and>
   map sample_u (fst (pixel_samples lamp_kernel 2 2 5 [()] 1 0 3 0)) = [1 / 2, 7 / 8, 3 / 4] \<and>
   map sample_v (fst (pixel_samples lamp_kernel 2 2 5 [()] 1 0 3 0)) = [1 / 8, 0, 3 / 8] \<and>
   map sample_color (fst (pixel_samples lamp_kernel 2 2 5 [()] 1 0 3 0))
     = [Vec3 (3 / 20) (21 / 100) (3 / 10), Vec3 (3 / 10) (21 / 50) (3 / 5),
        Vec3 (9 / 20) (63 / 100) (9 / 10)] \<and>
   render_pixel lamp_kernel 2 2 3 5 [()] 1 0 frame_of_four 0
     = ([Vec3 0 (1 / 4) 1, Vec3 (3 / 10) (21 / 50) (3 / 5), Vec3 (1 / 4) (1 / 4) (1 / 4),
         Vec3 1 1 1], 9)"
proof -
  have h: "(1::nat) < 2 \<and> (0::nat) < 2 \<and> length frame_of_four = 2 * 2 \<and> (0::nat) < 3"
    by (simp add: frame_of_four_def)
  have rng: "\<forall>g::nat. 0 \<le> fst (random_double lamp_kernel g) \<and>
                       fst (random_double lamp_kernel g) < 1"
    by (simp add: lamp_kernel_def)
  note inst = pixel_task[where x = 1 and width = 2 and y = 0 and height = 2
      and frame = frame_of_four and E = lamp_kernel and depth = 5 and spheres = "[()]"
      and S = 3 and g = "0::nat", THEN mp, OF h]
  from inst have len: "length (fst (pixel_samples lamp_kernel 2 2 5 [()] 1 0 3 0)) = 3"
    by (rule conjunct1)
  note eq = inst[THEN conjunct2, THEN conjunct2, THEN conjunct2, THEN conjunct1]
  have run: "render_pixel lamp_kernel 2 2 3 5 [()] 1 0 frame_of_four 0
     = ([Vec3 0 (1 / 4) 1, Vec3 (3 / 10) (21 / 50) (3 / 5), Vec3 (1 / 4) (1 / 4) (1 / 4),
         Vec3 1 1 1], 9)"
    unfolding eq lamp_samples by (simp add: frame_of_four_def)
  have js: "map jitter_x (fst (pixel_samples lamp_kernel 2 2 5 [()] 1 0 3 0)) = [0, 3 / 4, 1 / 2]"
    "map jitter_y (fst (pixel_samples lamp_kernel 2 2 5 [()] 1 0 3 0)) = [1 / 4, 0, 3 / 4]"
    "map sample_u (fst (pixel_samples lamp_kernel 2 2 5 [()] 1 0 3 0)) = [1 / 2, 7 / 8, 3 / 4]"
    "map sample_v (fst (pixel_samples lamp_kernel 2 2 5 [()] 1 0 3 0)) = [1 / 8, 0, 3 / 8]"
    "map sample_color (fst (pixel_samples lamp_kernel 2 2 5 [()] 1 0 3 0))
     = [Vec3 (3 / 20) (21 / 100) (3 / 10), Vec3 (3 / 10) (21 / 50) (3 / 5),
        Vec3 (9 / 20) (63 / 100) (9 / 10)]"
    unfolding lamp_samples by simp_all
  from h have h1: "(1::nat) < 2" and h2: "(0::nat) < 2" and h3: "length frame_of_four = 2 * 2"
    and h4: "(0::nat) < 3"
    by simp_all
  show ?thesis
    by (intro conjI h1 h2 h3 h4 rng len js run)
qed

end
